theory Spec2Isabelle
  imports Main
begin

section \<open>Currying of Python callables: \<^verbatim>\<open>okcupyd/util/currying.py\<close>\<close>

text \<open>
  The module defines one class, \<^verbatim>\<open>curry\<close>, whose instances wrap a callable together
  with the arguments collected so far. This theory embeds the class twice:
  \<^item> as values (a record per wrapper, a map per dictionary), which is where the
    decisions of the evaluation checkers and of \<^verbatim>\<open>__call__\<close> are read off;
  \<^item> as objects in a store (wrappers and dictionaries at addresses, instances with
    attribute tables), which is where identity, freshness and mutation are read off.
  The two are related by reading a wrapper object back into its value.
\<close>

subsection \<open>Python values the module handles\<close>

text \<open>
  Keyword arguments are a dictionary from names to values. An evaluation checker is
  called as \<^verbatim>\<open>checker(*args, **kwargs)\<close> and its result is used as a truth value;
  it is modelled as a total predicate.
\<close>

type_synonym 'v kwargs = "string \<rightharpoonup> 'v"

type_synonym 'v checker = "'v list \<Rightarrow> 'v kwargs \<Rightarrow> bool"

text \<open>
  The exceptions. \<open>TypeError\<close> is Python's; the reasons name the places that
  build one: the message of line 74, \<^verbatim>\<open>inspect.getargspec\<close> on something that is not
  a Python function, \<^verbatim>\<open>setattr\<close> with a name that is not a string, and the
  interpreter's own argument binding. \<open>Raised\<close> is any exception of the wrapped
  callable.
\<close>

datatype type_error =
    UnrecognizedArguments "string set"
  | NotAPythonFunction
  | AttributeNameNotString
  | TooManyArguments
  | MultipleValues
  | UnexpectedKeyword
  | MissingArgument
  | UnsupportedArgument

datatype 'e exn = TypeError type_error | Raised 'e

text \<open>
  What \<^verbatim>\<open>inspect.getargspec\<close> returns: the named tuple
  \<^verbatim>\<open>(args, varargs, keywords, defaults)\<close>. \<open>defaults\<close> is \<^verbatim>\<open>None\<close> or the tuple
  of the default values of the last parameters.
\<close>

record 'v argspec =
  spec_args :: "string list"
  spec_varargs :: "string option"
  spec_keywords :: "string option"
  spec_defaults :: "'v list option"

text \<open>
  A callable, as far as the module looks at it: \<^verbatim>\<open>__name__\<close>, \<^verbatim>\<open>__doc__\<close>
  (\<^verbatim>\<open>None\<close> without a docstring), \<^verbatim>\<open>inspect.isclass\<close>, the result of
  \<^verbatim>\<open>inspect.getargspec\<close> (of the callable, or of its \<^verbatim>\<open>__init__\<close> when it is a
  class; \<open>None\<close> when \<^verbatim>\<open>getargspec\<close> raises \<^verbatim>\<open>TypeError\<close>), and the call itself.
  The call may have effects of its own: it runs in a state \<open>'s\<close> and returns the
  new state with either the exception it raised or its result.
\<close>

record ('v, 's, 'e, 'r) callable =
  fn_name :: string
  fn_doc :: "string option"
  fn_isclass :: bool
  fn_argspec :: "'v argspec option"
  fn_apply :: "'v list \<Rightarrow> 'v kwargs \<Rightarrow> 's \<Rightarrow> ('e exn + 'r) \<times> 's"

subsection \<open>The evaluation checkers (lines 54 to 88)\<close>

text \<open>
  Lines 70 to 77. When the callable takes no \<^verbatim>\<open>**keywords\<close> and a supplied name is
  not among the parameters left after the positional ones, a \<^verbatim>\<open>TypeError\<close> object is
  built. The statement on line 74 is an expression statement: there is no
  \<^verbatim>\<open>raise\<close>. The function gives the object that is built, if any.
\<close>

definition unrecognized_arguments ::
  "'v argspec \<Rightarrow> string list \<Rightarrow> 'v list \<Rightarrow> 'v kwargs \<Rightarrow> type_error option" where
  "unrecognized_arguments function_info function_args args kwargs =
     (let kwarg_keys = dom kwargs in
      if spec_keywords function_info = None then
        (let acceptable_kwargs = drop (length args) function_args in
         if \<not> kwarg_keys \<subseteq> set acceptable_kwargs
         then Some (UnrecognizedArguments {key \<in> kwarg_keys. key \<notin> set acceptable_kwargs})
         else None)
      else None)"

text \<open>
  The closure \<^verbatim>\<open>evaluation_checker\<close> of lines 68 to 81, over \<^verbatim>\<open>function_info\<close> and
  \<^verbatim>\<open>function_args\<close>. The object of line 74 is bound and dropped, as in the source.
  \<^verbatim>\<open>function_info.defaults\<close> is false when it is \<^verbatim>\<open>None\<close> or the empty tuple.
  \<^verbatim>\<open>needed_args[:-n]\<close> keeps the first \<open>length needed_args - n\<close> entries, none when
  \<open>n\<close> is the larger.
\<close>

definition evaluation_checker :: "'v argspec \<Rightarrow> string list \<Rightarrow> 'v checker" where
  "evaluation_checker function_info function_args args kwargs =
     (let kwarg_keys = dom kwargs;
          dropped = unrecognized_arguments function_info function_args args kwargs;
          needed_args = drop (length args) function_args;
          needed_args =
            (case spec_defaults function_info of
               None \<Rightarrow> needed_args
             | Some defaults \<Rightarrow>
                 if defaults \<noteq> []
                 then take (length needed_args - length defaults) needed_args
                 else needed_args)
      in needed_args = [] \<or> set needed_args \<subseteq> kwarg_keys)"

text \<open>
  \<^verbatim>\<open>arity_evaluation_checker\<close>, lines 55 to 82. For a class the signature is that of
  \<^verbatim>\<open>__init__\<close> without its first parameter (lines 63 to 67);
  \<^verbatim>\<open>function_args[1:]\<close> of an empty list is empty.
\<close>

definition function_args :: "'v argspec \<Rightarrow> bool \<Rightarrow> string list" where
  "function_args function_info is_class =
     (let function_args = spec_args function_info
      in if is_class then drop 1 function_args else function_args)"

definition arity_evaluation_checker ::
  "('v, 's, 'e, 'r) callable \<Rightarrow> 'e exn + 'v checker" where
  "arity_evaluation_checker f =
     (let is_class = fn_isclass f in
      case fn_argspec f of
        None \<Rightarrow> Inl (TypeError NotAPythonFunction)
      | Some function_info \<Rightarrow>
          Inr (evaluation_checker function_info (function_args function_info is_class)))"

text \<open>
  \<^verbatim>\<open>count_evaluation_checker\<close>, lines 85 to 88. \<open>count\<close> is a Python integer.
\<close>

definition count_evaluation_checker :: "int \<Rightarrow> 'v checker" where
  "count_evaluation_checker count args kwargs = (int (length args) \<ge> count)"

subsection \<open>Wrappers as values\<close>

text \<open>
  The fields \<^verbatim>\<open>__init__\<close> assigns (lines 98 to 104). The type of the \<^verbatim>\<open>kwargs\<close>
  field is a parameter: a dictionary here, the address of one in the store below.
\<close>

record ('v, 's, 'e, 'r, 'd) curry_fields =
  c_function :: "('v, 's, 'e, 'r) callable"
  c_evaluation_checker :: "'v checker"
  c_args :: "'v list"
  c_kwargs :: 'd
  c_name :: string
  c_doc :: "string option"

type_synonym ('v, 's, 'e, 'r) curry_value = "('v, 's, 'e, 'r, 'v kwargs) curry_fields"

text \<open>
  \<^verbatim>\<open>x or y\<close> for the two uses in \<^verbatim>\<open>__init__\<close>: an evaluation checker that was
  given is a function object, which is true; a dictionary is true unless empty.
\<close>

definition checker_or ::
  "'v checker option \<Rightarrow> ('e exn + 'v checker) \<Rightarrow> 'e exn + 'v checker" where
  "checker_or checker dflt = (case checker of Some c \<Rightarrow> Inr c | None \<Rightarrow> dflt)"

definition kwargs_or_empty :: "'v kwargs option \<Rightarrow> 'v kwargs" where
  "kwargs_or_empty kwargs =
     (case kwargs of None \<Rightarrow> Map.empty | Some k \<Rightarrow> if k = Map.empty then Map.empty else k)"

text \<open>
  \<^verbatim>\<open>__init__\<close>, lines 90 to 104, as the constructor call
  \<^verbatim>\<open>curry(function, evaluation_checker, args, kwargs)\<close>. It raises only through
  \<^verbatim>\<open>arity_evaluation_checker\<close>, which is reached only without a checker.
\<close>

definition init ::
  "('v, 's, 'e, 'r) callable \<Rightarrow> 'v checker option \<Rightarrow> 'v list \<Rightarrow> 'v kwargs option
     \<Rightarrow> 'e exn + ('v, 's, 'e, 'r) curry_value" where
  "init f checker args kwargs =
     (case checker_or checker (arity_evaluation_checker f) of
        Inl e \<Rightarrow> Inl e
      | Inr c \<Rightarrow>
          Inr \<lparr> c_function = f, c_evaluation_checker = c, c_args = args,
                c_kwargs = kwargs_or_empty kwargs,
                c_name = fn_name f, c_doc = fn_doc f \<rparr>)"

text \<open>
  What a call of a wrapper returns: the result of the wrapped callable, or another
  wrapper.
\<close>

datatype ('r, 'w) outcome = Result 'r | Partial 'w

text \<open>
  \<^verbatim>\<open>dict.copy\<close> and \<^verbatim>\<open>dict.update\<close> on the contents of a dictionary.
\<close>

definition dict_copy :: "'v kwargs \<Rightarrow> 'v kwargs" where
  "dict_copy d = d"

definition dict_update :: "'v kwargs \<Rightarrow> 'v kwargs \<Rightarrow> 'v kwargs" where
  "dict_update d other = (\<lambda>key. case other key of Some v \<Rightarrow> Some v | None \<Rightarrow> d key)"

text \<open>
  \<^verbatim>\<open>__call__\<close>, lines 106 to 114. The state is that of the wrapped callable: it
  changes only when the callable is called.
\<close>

definition call ::
  "('v, 's, 'e, 'r) curry_value \<Rightarrow> 'v list \<Rightarrow> 'v kwargs \<Rightarrow> 's
     \<Rightarrow> ('e exn + ('r, ('v, 's, 'e, 'r) curry_value) outcome) \<times> 's" where
  "call self args kwargs s =
     (let new_args = c_args self @ args;
          new_kwargs = dict_update (dict_copy (c_kwargs self)) kwargs
      in if c_evaluation_checker self new_args new_kwargs
         then (case fn_apply (c_function self) new_args new_kwargs s of
                 (r, s') \<Rightarrow> (map_sum id Result r, s'))
         else (map_sum id Partial
                 (init (c_function self) (Some (c_evaluation_checker self))
                    new_args (Some new_kwargs)), s))"

subsection \<open>Successive calls\<close>

text \<open>
  \<^verbatim>\<open>w(*a1, **k1)(*a2, **k2)...\<close>: every call is made on what the call before it
  returned, for as long as that is a wrapper. The list holds what each call
  returned, in order; it ends at the first call that raised or returned a result of
  the wrapped callable (the next call would be a call of that result, not of a
  wrapper).
\<close>

fun call_seq ::
  "('v, 's, 'e, 'r) curry_value \<Rightarrow> ('v list \<times> 'v kwargs) list \<Rightarrow> 's
     \<Rightarrow> ('e exn + ('r, ('v, 's, 'e, 'r) curry_value) outcome) list \<times> 's" where
  "call_seq w [] s = ([], s)"
| "call_seq w ((args, kwargs) # rest) s =
     (case call w args kwargs s of
        (Inr (Partial w'), s') \<Rightarrow>
          (case call_seq w' rest s' of (outs, s'') \<Rightarrow> (Inr (Partial w') # outs, s''))
      | (out, s') \<Rightarrow> ([out], s'))"


text \<open>
  The wrapper line 113 builds from \<open>w\<close> for given accumulators, and the wrappers
  that a run of calls goes through when every one of them is deferred.
\<close>

definition rebuilt ::
  "('v, 's, 'e, 'r) curry_value \<Rightarrow> 'v list \<Rightarrow> 'v kwargs \<Rightarrow> ('v, 's, 'e, 'r) curry_value" where
  "rebuilt w args kwargs =
     \<lparr> c_function = c_function w, c_evaluation_checker = c_evaluation_checker w,
       c_args = args, c_kwargs = kwargs,
       c_name = fn_name (c_function w), c_doc = fn_doc (c_function w) \<rparr>"

fun accumulate ::
  "('v, 's, 'e, 'r) curry_value \<Rightarrow> ('v list \<times> 'v kwargs) list
     \<Rightarrow> ('v, 's, 'e, 'r) curry_value list" where
  "accumulate w [] = []"
| "accumulate w ((args, kwargs) # rest) =
     (let w' = rebuilt w (c_args w @ args) (dict_update (c_kwargs w) kwargs)
      in w' # accumulate w' rest)"

fun all_deferred ::
  "('v, 's, 'e, 'r) curry_value \<Rightarrow> ('v list \<times> 'v kwargs) list \<Rightarrow> bool" where
  "all_deferred w [] = True"
| "all_deferred w ((args, kwargs) # rest) =
     (\<not> c_evaluation_checker w (c_args w @ args) (dict_update (c_kwargs w) kwargs) \<and>
      all_deferred (rebuilt w (c_args w @ args) (dict_update (c_kwargs w) kwargs)) rest)"

subsection \<open>Python's argument binding\<close>

text \<open>
  What the interpreter does with \<^verbatim>\<open>f(*args, **kwargs)\<close> for a function defined as
  \<^verbatim>\<open>def f(names..., [*varargs], [**keywords])\<close> whose last parameters have the
  given defaults: positional arguments fill the parameters in order, named ones
  fill parameters by name, defaults fill what is left; a surplus goes to
  \<^verbatim>\<open>*varargs\<close> and \<^verbatim>\<open>**keywords\<close> when declared and is a \<^verbatim>\<open>TypeError\<close> otherwise.
\<close>

record 'v bound_arguments =
  bound_params :: "string \<rightharpoonup> 'v"
  bound_varargs :: "'v list"
  bound_keywords :: "'v kwargs"

definition param_value ::
  "string list \<Rightarrow> 'v list \<Rightarrow> 'v list \<Rightarrow> 'v kwargs \<Rightarrow> nat \<Rightarrow> 'v option" where
  "param_value names defaults args kwargs i =
     (let first_default = length names - length defaults in
      if i < length args then Some (args ! i)
      else case kwargs (names ! i) of
             Some v \<Rightarrow> Some v
           | None \<Rightarrow>
               if first_default \<le> i \<and> i - first_default < length defaults
               then Some (defaults ! (i - first_default)) else None)"

definition py_bind ::
  "string list \<Rightarrow> 'v list \<Rightarrow> bool \<Rightarrow> bool \<Rightarrow> 'v list \<Rightarrow> 'v kwargs
     \<Rightarrow> type_error + 'v bound_arguments" where
  "py_bind names defaults has_varargs has_keywords args kwargs =
     (if length names < length args \<and> \<not> has_varargs then Inl TooManyArguments
      else if \<exists>name \<in> set (take (length args) names). name \<in> dom kwargs
        then Inl MultipleValues
      else if \<not> has_keywords \<and> \<not> dom kwargs \<subseteq> set names then Inl UnexpectedKeyword
      else case those (map (param_value names defaults args kwargs) [0..<length names]) of
             None \<Rightarrow> Inl MissingArgument
           | Some values \<Rightarrow>
               Inr \<lparr> bound_params = map_of (zip names values),
                     bound_varargs = drop (length names) args,
                     bound_keywords = kwargs |` (- set names) \<rparr>)"

text \<open>
  A function written with \<^verbatim>\<open>def\<close>: its name and docstring, what
  \<^verbatim>\<open>inspect.getargspec\<close> reports for it, and its call, which binds the arguments
  and runs the body on them.
\<close>

definition py_def ::
  "string \<Rightarrow> string option \<Rightarrow> string list \<Rightarrow> 'v list
     \<Rightarrow> ('v bound_arguments \<Rightarrow> 's \<Rightarrow> ('e exn + 'r) \<times> 's) \<Rightarrow> ('v, 's, 'e, 'r) callable" where
  "py_def name doc names defaults body =
     \<lparr> fn_name = name, fn_doc = doc, fn_isclass = False,
       fn_argspec = Some \<lparr> spec_args = names, spec_varargs = None, spec_keywords = None,
                            spec_defaults = (if defaults = [] then None else Some defaults) \<rparr>,
       fn_apply = (\<lambda>args kwargs s.
          case py_bind names defaults False False args kwargs of
            Inl err \<Rightarrow> (Inl (TypeError err), s)
          | Inr bound \<Rightarrow> body bound s) \<rparr>"

text \<open>
  The example of the class docstring (lines 13 to 20), \<^verbatim>\<open>greater_than(x, y)\<close>. The
  state counts how often the body ran.
\<close>

definition greater_than :: "(int, nat, 'e, bool) callable" where
  "greater_than =
     py_def ''greater_than'' None [''x'', ''y''] []
       (\<lambda>bound count.
          (case (bound_params bound ''x'', bound_params bound ''y'') of
             (Some x, Some y) \<Rightarrow> Inr (y < x)
           | _ \<Rightarrow> Inl (TypeError MissingArgument), Suc count))"

text \<open>
  A function \<^verbatim>\<open>f(x, y=1)\<close> that returns its parameters as it received them.
\<close>

definition f_x_y1 :: "(int, 's, 'e, string \<rightharpoonup> int) callable" where
  "f_x_y1 = py_def ''f'' None [''x'', ''y''] [1] (\<lambda>bound s. (Inr (bound_params bound), s))"

text \<open>
  A function \<^verbatim>\<open>divide(x, y)\<close> that raises \<^verbatim>\<open>ZeroDivisionError\<close> for \<open>y = 0\<close>.
\<close>

definition divide :: "(int, 's, string, int) callable" where
  "divide =
     py_def ''divide'' None [''x'', ''y''] []
       (\<lambda>bound s.
          (case (bound_params bound ''x'', bound_params bound ''y'') of
             (Some x, Some y) \<Rightarrow>
               if y = 0 then Inl (Raised ''ZeroDivisionError'') else Inr (x div y)
           | _ \<Rightarrow> Inl (TypeError MissingArgument), s))"

text \<open>
  The method \<^verbatim>\<open>def greet(self, greeting): ...\<close>, written without a docstring, so
  that its \<^verbatim>\<open>__doc__\<close> is \<^verbatim>\<open>None\<close>. It returns its parameters as it received
  them.
\<close>

definition greet :: "(string, 's, 'e, string \<rightharpoonup> string) callable" where
  "greet =
     py_def ''greet'' None [''self'', ''greeting''] []
       (\<lambda>bound s. (Inr (bound_params bound), s))"

text \<open>
  A function \<^verbatim>\<open>f(*args, **kwargs)\<close> that returns what it received and counts its
  evaluations.
\<close>

definition args_kwargs :: "('v, nat, 'e, 'v list \<times> 'v kwargs) callable" where
  "args_kwargs =
     \<lparr> fn_name = ''f'', fn_doc = None, fn_isclass = False,
       fn_argspec = Some \<lparr> spec_args = [], spec_varargs = Some ''args'',
                            spec_keywords = Some ''kwargs'', spec_defaults = None \<rparr>,
       fn_apply = (\<lambda>args kwargs count. (Inr (args, kwargs), Suc count)) \<rparr>"

subsection \<open>The required parameters, as the specification words them\<close>

text \<open>
  The declared parameters are numbered from 0. The ones with a declared default
  are the last \<open>default_count\<close> of them. The required parameters, given \<open>p\<close>
  positional arguments, are the declared parameters from position \<open>p\<close> on that
  have no declared default.
\<close>

definition default_count :: "'v argspec \<Rightarrow> nat" where
  "default_count function_info =
     (case spec_defaults function_info of None \<Rightarrow> 0 | Some defaults \<Rightarrow> length defaults)"

definition has_default :: "string list \<Rightarrow> nat \<Rightarrow> nat \<Rightarrow> bool" where
  "has_default declared n_defaults i = (length declared - n_defaults \<le> i)"

definition required_params :: "string list \<Rightarrow> nat \<Rightarrow> nat \<Rightarrow> string list" where
  "required_params declared n_defaults p =
     map (\<lambda>i. declared ! i)
       (filter (\<lambda>i. \<not> has_default declared n_defaults i) [p..<length declared])"

subsection \<open>The class as a callable, and the exported name (line 131)\<close>

text \<open>
  The arguments the constructor takes: a callable, an evaluation checker, a tuple,
  a dictionary, or \<^verbatim>\<open>None\<close>.
\<close>

datatype ('v, 's, 'e, 'r) py_value =
    PyNone
  | PyFunction "('v, 's, 'e, 'r) callable"
  | PyChecker "'v checker"
  | PyTuple "'v list"
  | PyDict "'v kwargs"

text \<open>
  Truth value of such an argument, as \<^verbatim>\<open>or\<close> reads it: \<^verbatim>\<open>None\<close>, the empty
  tuple and the empty dictionary are false.
\<close>

fun truthy :: "('v, 's, 'e, 'r) py_value \<Rightarrow> bool" where
  "truthy PyNone = False"
| "truthy (PyFunction f) = True"
| "truthy (PyChecker c) = True"
| "truthy (PyTuple xs) = (xs \<noteq> [])"
| "truthy (PyDict d) = (d \<noteq> Map.empty)"

text \<open>
  The arguments read at the types \<^verbatim>\<open>__init__\<close> uses them at. For
  \<^verbatim>\<open>evaluation_checker\<close> and \<^verbatim>\<open>kwargs\<close> a false value selects the default of
  the \<^verbatim>\<open>or\<close>; the outer \<open>None\<close> stands for a value of a type the parameter is
  not meant for.
\<close>

fun as_function :: "('v, 's, 'e, 'r) py_value \<Rightarrow> ('v, 's, 'e, 'r) callable option" where
  "as_function (PyFunction f) = Some f"
| "as_function _ = None"

definition as_checker :: "('v, 's, 'e, 'r) py_value \<Rightarrow> 'v checker option option" where
  "as_checker v =
     (if \<not> truthy v then Some None
      else case v of PyChecker c \<Rightarrow> Some (Some c) | _ \<Rightarrow> None)"

fun as_tuple :: "('v, 's, 'e, 'r) py_value \<Rightarrow> 'v list option" where
  "as_tuple (PyTuple xs) = Some xs"
| "as_tuple _ = None"

definition as_kwargs :: "('v, 's, 'e, 'r) py_value \<Rightarrow> 'v kwargs option option" where
  "as_kwargs v =
     (if \<not> truthy v then Some None
      else case v of PyDict d \<Rightarrow> Some (Some d) | _ \<Rightarrow> None)"

text \<open>
  The signature of line 90,
  \<^verbatim>\<open>__init__(self, function, evaluation_checker=None, args=(), kwargs=None)\<close>.
\<close>

definition init_params :: "string list" where
  "init_params = [''function'', ''evaluation_checker'', ''args'', ''kwargs'']"

definition init_defaults :: "('v, 's, 'e, 'r) py_value list" where
  "init_defaults = [PyNone, PyTuple [], PyNone]"

text \<open>
  The call \<^verbatim>\<open>curry(*args, **kwargs)\<close> of the class: the interpreter binds the
  arguments to the parameters of \<^verbatim>\<open>__init__\<close> after \<^verbatim>\<open>self\<close> and runs it. The
  constructor is modelled on arguments of the types its parameters are meant for;
  an argument of another type is answered here with \<open>UnsupportedArgument\<close>, where
  Python would store it and fail at its first use.
\<close>

definition curry_new ::
  "('v, 's, 'e, 'r) py_value list \<Rightarrow> ('v, 's, 'e, 'r) py_value kwargs
     \<Rightarrow> 'e exn + ('v, 's, 'e, 'r) curry_value" where
  "curry_new args kwargs =
     (case py_bind init_params init_defaults False False args kwargs of
        Inl err \<Rightarrow> Inl (TypeError err)
      | Inr bound \<Rightarrow>
          (case (Option.bind (bound_params bound ''function'') as_function,
                 Option.bind (bound_params bound ''evaluation_checker'') as_checker,
                 Option.bind (bound_params bound ''args'') as_tuple,
                 Option.bind (bound_params bound ''kwargs'') as_kwargs) of
             (Some f, Some checker, Some a, Some k) \<Rightarrow> init f checker a k
           | _ \<Rightarrow> Inl (TypeError UnsupportedArgument)))"

text \<open>
  The class object \<^verbatim>\<open>curry\<close> as the callable that line 131 wraps. Its docstring
  is the text of lines 5 to 52; the first line stands for it.
\<close>

definition curry_class ::
  "(('v, 's, 'e, 'r) py_value, 't, 'e, ('v, 's, 'e, 'r) curry_value) callable" where
  "curry_class =
     \<lparr> fn_name = ''curry'', fn_doc = Some ''Curry a function or method.'',
       fn_isclass = True,
       fn_argspec = Some \<lparr> spec_args = ''self'' # init_params, spec_varargs = None,
                            spec_keywords = None, spec_defaults = Some init_defaults \<rparr>,
       fn_apply = (\<lambda>args kwargs t. (curry_new args kwargs, t)) \<rparr>"

text \<open>
  Line 131, \<^verbatim>\<open>curry = curry(curry)\<close>: the name the module exports.
\<close>

definition curry_exported ::
  "'e exn +
   (('v, 's, 'e, 'r) py_value, 't, 'e, ('v, 's, 'e, 'r) curry_value) curry_value" where
  "curry_exported = init curry_class None [] None"

subsection \<open>Wrappers as objects in a store\<close>

text \<open>
  Wrapper objects and dictionaries live at addresses; a wrapper object holds the
  address of its \<^verbatim>\<open>kwargs\<close> dictionary. Tuples are immutable and are kept by value.
  An instance is a value; the store keeps, per instance, the attributes that
  \<^verbatim>\<open>setattr\<close> assigned. \<open>next_addr\<close> is the next address that an allocation hands
  out.
\<close>

type_synonym addr = nat

type_synonym ('v, 's, 'e, 'r) curry_object = "('v, 's, 'e, 'r, addr) curry_fields"

record ('v, 's, 'e, 'r) store =
  wrappers :: "addr \<rightharpoonup> ('v, 's, 'e, 'r) curry_object"
  dicts :: "addr \<rightharpoonup> 'v kwargs"
  attributes :: "'v \<Rightarrow> (string \<rightharpoonup> addr)"
  next_addr :: addr

definition new_dict ::
  "'v kwargs \<Rightarrow> ('v, 's, 'e, 'r) store \<Rightarrow> addr \<times> ('v, 's, 'e, 'r) store" where
  "new_dict content st =
     (next_addr st,
      st\<lparr> dicts := (dicts st)(next_addr st \<mapsto> content), next_addr := Suc (next_addr st) \<rparr>)"

definition new_wrapper ::
  "('v, 's, 'e, 'r) curry_object \<Rightarrow> ('v, 's, 'e, 'r) store
     \<Rightarrow> addr \<times> ('v, 's, 'e, 'r) store" where
  "new_wrapper w st =
     (next_addr st,
      st\<lparr> wrappers := (wrappers st)(next_addr st \<mapsto> w), next_addr := Suc (next_addr st) \<rparr>)"

text \<open>
  \<^verbatim>\<open>d.update(other)\<close> changes the dictionary at \<open>d\<close> in place.
\<close>

definition update_at ::
  "addr \<Rightarrow> 'v kwargs \<Rightarrow> ('v, 's, 'e, 'r) store \<Rightarrow> ('v, 's, 'e, 'r) store" where
  "update_at d other st =
     (case dicts st d of
        None \<Rightarrow> st
      | Some content \<Rightarrow> st\<lparr> dicts := (dicts st)(d \<mapsto> dict_update content other) \<rparr>)"

text \<open>
  \<^verbatim>\<open>kwargs or {}\<close> on references: the dictionary that was passed when there is one
  and it is not empty, a new empty dictionary otherwise.
\<close>

definition kwargs_or_new ::
  "addr option \<Rightarrow> ('v, 's, 'e, 'r) store \<Rightarrow> addr \<times> ('v, 's, 'e, 'r) store" where
  "kwargs_or_new kwargs st =
     (case kwargs of
        None \<Rightarrow> new_dict Map.empty st
      | Some d \<Rightarrow>
          (case dicts st d of
             None \<Rightarrow> new_dict Map.empty st
           | Some content \<Rightarrow> if content = Map.empty then new_dict Map.empty st else (d, st)))"

text \<open>
  \<^verbatim>\<open>__init__\<close> again, now building the object. When the checker cannot be derived
  the exception leaves the store as it was.
\<close>

definition obj_init ::
  "('v, 's, 'e, 'r) callable \<Rightarrow> 'v checker option \<Rightarrow> 'v list \<Rightarrow> addr option
     \<Rightarrow> ('v, 's, 'e, 'r) store \<Rightarrow> ('e exn + addr) \<times> ('v, 's, 'e, 'r) store" where
  "obj_init f checker args kwargs st =
     (case checker_or checker (arity_evaluation_checker f) of
        Inl e \<Rightarrow> (Inl e, st)
      | Inr c \<Rightarrow>
          (case kwargs_or_new kwargs st of
             (d, st1) \<Rightarrow>
               (case new_wrapper
                       \<lparr> c_function = f, c_evaluation_checker = c, c_args = args,
                         c_kwargs = d, c_name = fn_name f, c_doc = fn_doc f \<rparr> st1 of
                  (a, st2) \<Rightarrow> (Inr a, st2))))"

text \<open>
  \<^verbatim>\<open>__call__\<close> on the object at \<open>self\<close>. \<^verbatim>\<open>self.kwargs.copy()\<close> allocates a
  dictionary, \<^verbatim>\<open>update\<close> writes into that copy, and the checker and the wrapped
  callable receive its contents. The result is \<open>None\<close> when \<open>self\<close> is not a
  wrapper object of the store.
\<close>

definition obj_call ::
  "addr \<Rightarrow> 'v list \<Rightarrow> 'v kwargs \<Rightarrow> ('v, 's, 'e, 'r) store \<Rightarrow> 's
     \<Rightarrow> (('e exn + ('r, addr) outcome) \<times> ('v, 's, 'e, 'r) store \<times> 's) option" where
  "obj_call self args kwargs st s =
     (case wrappers st self of
        None \<Rightarrow> None
      | Some w \<Rightarrow>
          (case dicts st (c_kwargs w) of
             None \<Rightarrow> None
           | Some self_kwargs \<Rightarrow>
               (let new_args = c_args w @ args in
                case new_dict (dict_copy self_kwargs) st of
                  (new_kwargs, st1) \<Rightarrow>
                    (let st2 = update_at new_kwargs kwargs st1 in
                     case dicts st2 new_kwargs of
                       None \<Rightarrow> None
                     | Some merged \<Rightarrow>
                         if c_evaluation_checker w new_args merged
                         then (case fn_apply (c_function w) new_args merged s of
                                 (r, s') \<Rightarrow> Some (map_sum id Result r, st2, s'))
                         else (case obj_init (c_function w) (Some (c_evaluation_checker w))
                                      new_args (Some new_kwargs) st2 of
                                 (r, st3) \<Rightarrow> Some (map_sum id Partial r, st3, s))))))"

text \<open>
  \<^verbatim>\<open>setattr(obj, name, value)\<close>: the name must be a string.
\<close>

definition py_setattr ::
  "'v \<Rightarrow> string option \<Rightarrow> addr \<Rightarrow> ('v, 's, 'e, 'r) store
     \<Rightarrow> 'e exn + ('v, 's, 'e, 'r) store" where
  "py_setattr obj name val st =
     (case name of
        None \<Rightarrow> Inl (TypeError AttributeNameNotString)
      | Some n \<Rightarrow> Inr (st\<lparr> attributes := (attributes st)(obj := (attributes st obj)(n \<mapsto> val)) \<rparr>))"

text \<open>
  \<^verbatim>\<open>__get__(self, obj, obj_type)\<close>, lines 116 to 124. \<open>obj\<close> is \<open>None\<close> for an
  access through the class; \<^verbatim>\<open>obj_type\<close> is not used by the method and is left
  out. An exception of the second \<^verbatim>\<open>setattr\<close> comes after the first assignment
  was made.
\<close>

definition obj_get ::
  "addr \<Rightarrow> 'v option \<Rightarrow> ('v, 's, 'e, 'r) store
     \<Rightarrow> (('e exn + addr) \<times> ('v, 's, 'e, 'r) store) option" where
  "obj_get self obj st =
     (case wrappers st self of
        None \<Rightarrow> None
      | Some w \<Rightarrow>
          Some (case obj of
                  None \<Rightarrow> (Inr self, st)
                | Some instance \<Rightarrow>
                    (case obj_init (c_function w) (Some (c_evaluation_checker w))
                            (c_args w @ [instance]) (Some (c_kwargs w)) st of
                       (Inl e, st1) \<Rightarrow> (Inl e, st1)
                     | (Inr bound, st1) \<Rightarrow>
                         (case py_setattr instance (Some (fn_name (c_function w))) bound st1 of
                            Inl e \<Rightarrow> (Inl e, st1)
                          | Inr st2 \<Rightarrow>
                              (case py_setattr instance (fn_doc (c_function w)) bound st2 of
                                 Inl e \<Rightarrow> (Inl e, st2)
                               | Inr st3 \<Rightarrow> (Inr bound, st3))))))"

text \<open>
  Reading a wrapper object back into its value.
\<close>

definition value_at ::
  "('v, 's, 'e, 'r) store \<Rightarrow> addr \<Rightarrow> ('v, 's, 'e, 'r) curry_value option" where
  "value_at st a =
     (case wrappers st a of
        None \<Rightarrow> None
      | Some w \<Rightarrow>
          (case dicts st (c_kwargs w) of
             None \<Rightarrow> None
           | Some content \<Rightarrow>
               Some \<lparr> c_function = c_function w,
                      c_evaluation_checker = c_evaluation_checker w,
                      c_args = c_args w, c_kwargs = content,
                      c_name = c_name w, c_doc = c_doc w \<rparr>))"

text \<open>
  The store before anything was built.
\<close>

definition empty_store :: "('v, 's, 'e, 'r) store" where
  "empty_store =
     \<lparr> wrappers = Map.empty, dicts = Map.empty, attributes = (\<lambda>obj. Map.empty),
       next_addr = 0 \<rparr>"

text \<open>
  The store after \<^verbatim>\<open>curry(f, args=args)\<close> was built in the empty store; the wrapper
  object is at address 1 and its dictionary at address 0.
\<close>

definition store_with ::
  "('v, 's, 'e, 'r) callable \<Rightarrow> 'v list \<Rightarrow> ('v, 's, 'e, 'r) store" where
  "store_with f args = snd (obj_init f None args None empty_store)"

text \<open>
  \<^verbatim>\<open>greet\<close> written with a docstring.
\<close>

definition greet_documented :: "(string, 's, 'e, string \<rightharpoonup> string) callable" where
  "greet_documented =
     py_def ''greet'' (Some ''Greet.'') [''self'', ''greeting''] []
       (\<lambda>bound s. (Inr (bound_params bound), s))"

text \<open>
  Two observations of \<^verbatim>\<open>__get__\<close>: the positional arguments of the wrapper it
  returned, and the exception it raised.
\<close>

definition bound_args_after_get ::
  "addr \<Rightarrow> 'v option \<Rightarrow> ('v, 's, 'e, 'r) store \<Rightarrow> 'v list option" where
  "bound_args_after_get self obj st =
     (case obj_get self obj st of
        Some (Inr b, st') \<Rightarrow> map_option c_args (wrappers st' b)
      | _ \<Rightarrow> None)"

definition raised_by_get ::
  "addr \<Rightarrow> 'v option \<Rightarrow> ('v, 's, 'e, 'r) store \<Rightarrow> 'e exn option" where
  "raised_by_get self obj st =
     (case obj_get self obj st of
        Some (Inl e, st') \<Rightarrow> Some e
      | _ \<Rightarrow> None)"

section \<open>Properties\<close>

subsection \<open>Dictionaries, the constructor and one call\<close>

lemma dict_update_map_add: "dict_update d other = d ++ other"
  by (rule ext) (simp add: dict_update_def map_add_def split: option.splits)

lemma dict_update_empty [simp]: "dict_update d Map.empty = d"
  by (simp add: dict_update_def)

lemma init_given: "init f (Some c) a (Some k) = Inr \<lparr> c_function = f, c_evaluation_checker = c, c_args = a, c_kwargs = k, c_name = fn_name f, c_doc = fn_doc f \<rparr>"
  by (simp add: init_def checker_or_def kwargs_or_empty_def)

lemma init_rebuilt: "init (c_function w) (Some (c_evaluation_checker w)) a (Some k) = Inr (rebuilt w a k)"
  by (simp add: init_given rebuilt_def)

lemma rebuilt_sel [simp]:
  "c_function (rebuilt w a k) = c_function w"
  "c_evaluation_checker (rebuilt w a k) = c_evaluation_checker w"
  "c_args (rebuilt w a k) = a"
  "c_kwargs (rebuilt w a k) = k"
  "c_name (rebuilt w a k) = fn_name (c_function w)"
  "c_doc (rebuilt w a k) = fn_doc (c_function w)"
  by (simp_all add: rebuilt_def)

lemma rebuilt_rebuilt [simp]: "rebuilt (rebuilt w a k) a' k' = rebuilt w a' k'"
  by (simp add: rebuilt_def)

lemma call_eq:
  "call w a k s =
     (if c_evaluation_checker w (c_args w @ a) (dict_update (c_kwargs w) k)
      then (map_sum id Result (fst (fn_apply (c_function w) (c_args w @ a) (dict_update (c_kwargs w) k) s)),
            snd (fn_apply (c_function w) (c_args w @ a) (dict_update (c_kwargs w) k) s))
      else (Inr (Partial (rebuilt w (c_args w @ a) (dict_update (c_kwargs w) k))), s))"
  by (simp add: call_def Let_def dict_copy_def init_rebuilt split: prod.splits)

lemma call_deferred:
  "\<not> c_evaluation_checker w (c_args w @ a) (dict_update (c_kwargs w) k) \<Longrightarrow>
   call w a k s = (Inr (Partial (rebuilt w (c_args w @ a) (dict_update (c_kwargs w) k))), s)"
  by (simp add: call_eq)


lemma call_seq_single: "call_seq w [(a, k)] s = ([fst (call w a k s)], snd (call w a k s))"
  by (simp split: prod.splits sum.splits outcome.splits)

lemma call_seq_final:
  "all_deferred w cs \<Longrightarrow>
   call_seq w (cs @ [(a, k)]) s =
     (map (Inr \<circ> Partial) (accumulate w cs) @ [fst (call (last (w # accumulate w cs)) a k s)],
      snd (call (last (w # accumulate w cs)) a k s))"
proof (induction cs arbitrary: w)
  case Nil
  show ?case using call_seq_single [of w a k s] by simp
next
  case (Cons c cs)
  obtain a' k' where c: "c = (a', k')" by (cases c)
  from Cons.prems c show ?case
    by (simp add: call_deferred Cons.IH Let_def)
qed

lemma last_accumulate:
  "last (w # accumulate w cs) =
     (if cs = [] then w
      else rebuilt w (c_args w @ concat (map fst cs)) (foldl dict_update (c_kwargs w) (map snd cs)))"
proof (induction cs arbitrary: w)
  case Nil
  show ?case by simp
next
  case (Cons c cs)
  obtain a k where c: "c = (a, k)" by (cases c)
  show ?case using Cons.IH [of "rebuilt w (c_args w @ a) (dict_update (c_kwargs w) k)"] c
    by (simp add: Let_def)
qed


lemma length_accumulate [simp]: "length (accumulate w cs) = length cs"
  by (induction cs arbitrary: w) (auto simp: Let_def)

lemma evaluation_checker_eq:
  "evaluation_checker info fargs a k =
     (set (take (length fargs - length a - (case spec_defaults info of None \<Rightarrow> 0 | Some ds \<Rightarrow> length ds))
              (drop (length a) fargs)) \<subseteq> dom k)"
  by (auto simp: evaluation_checker_def Let_def split: option.splits)



lemma init_arity:
  "fn_argspec f = Some info \<Longrightarrow>
   init f None a k = Inr \<lparr> c_function = f,
       c_evaluation_checker = evaluation_checker info (function_args info (fn_isclass f)),
       c_args = a, c_kwargs = (case k of None \<Rightarrow> Map.empty | Some d \<Rightarrow> d), c_name = fn_name f, c_doc = fn_doc f \<rparr>"
  by (simp add: init_def checker_or_def kwargs_or_empty_def arity_evaluation_checker_def Let_def split: option.splits)


subsection \<open>Partial calls up to the arity\<close>



lemma filter_less_upt: "filter (\<lambda>i. i < m) [p..<n] = [p..<min m n]"
proof (induction n)
  case 0
  show ?case by simp
next
  case (Suc n)
  show ?case
  proof (cases "n < m")
    case True
    then have "min m (Suc n) = Suc n" "min m n = n" by simp_all
    with Suc True show ?thesis by simp
  next
    case False
    then have "min m (Suc n) = m" "min m n = m" by simp_all
    with Suc False show ?thesis by simp
  qed
qed

lemma map_nth_upt_take:
  "m \<le> length xs \<Longrightarrow> map (\<lambda>i. xs ! i) [p..<m] = drop p (take m xs)"
  by (auto simp: list_eq_iff_nth_eq)

lemma py_def_sel [simp]:
  "fn_name (py_def name doc names defaults body) = name"
  "fn_doc (py_def name doc names defaults body) = doc"
  "fn_isclass (py_def name doc names defaults body) = False"
  "fn_argspec (py_def name doc names defaults body) =
     Some \<lparr> spec_args = names, spec_varargs = None, spec_keywords = None,
            spec_defaults = (if defaults = [] then None else Some defaults) \<rparr>"
  "fn_apply (py_def name doc names defaults body) args kwargs s =
     (case py_bind names defaults False False args kwargs of
        Inl err \<Rightarrow> (Inl (TypeError err), s)
      | Inr bound \<Rightarrow> body bound s)"
  by (simp_all add: py_def_def)


subsection \<open>The default checker and the required parameters\<close>

lemma required_params_eq:
  "required_params declared d p = take (length declared - p - d) (drop p declared)"
proof -
  have "filter (\<lambda>i. \<not> has_default declared d i) [p..<length declared] =
        [p..<min (length declared - d) (length declared)]"
    by (simp add: has_default_def not_le filter_less_upt)
  then have "required_params declared d p = map (\<lambda>i. declared ! i) [p..<length declared - d]"
    by (simp add: required_params_def min_def)
  also have "\<dots> = drop p (take (length declared - d) declared)"
    by (simp add: map_nth_upt_take)
  also have "\<dots> = take (length declared - p - d) (drop p declared)"
    by (simp add: drop_take add.commute)
  finally show ?thesis .
qed

lemma evaluation_checker_required:
  "evaluation_checker info fargs a k =
     (let required = required_params fargs (default_count info) (length a)
      in required = [] \<or> set required \<subseteq> dom k)"
  by (auto simp: evaluation_checker_eq required_params_eq default_count_def Let_def)

text \<open>
  Claim C3. The default checker of a wrapped callable is true exactly when the
  required parameters (the declared ones from position \<open>length args\<close> on that have
  no declared default) are none, or all of them are among the names supplied.
  For \<^verbatim>\<open>f(x, y=1)\<close>, a call with \<open>x\<close> alone evaluates \<open>f\<close> with \<open>y = 1\<close>, and a
  call with \<open>x\<close> and \<^verbatim>\<open>y=5\<close> evaluates it with \<open>y = 5\<close>.
\<close>

theorem arity_checker_required_params:
  assumes "fn_argspec f = Some info"
  shows "(\<exists>w. init f None [] None = Inr w \<and>
      (\<forall>args kwargs. c_evaluation_checker w args kwargs \<longleftrightarrow>
         (let required = required_params (function_args info (fn_isclass f))
                           (default_count info) (length args)
          in required = [] \<or> set required \<subseteq> dom kwargs))) \<and>
    (\<exists>w. init f_x_y1 None [] None = Inr w \<and>
      (\<forall>x s. call w [x] Map.empty s = (Inr (Result [''x'' \<mapsto> x, ''y'' \<mapsto> 1]), s) \<and>
             call w [x] [''y'' \<mapsto> 5] s = (Inr (Result [''x'' \<mapsto> x, ''y'' \<mapsto> 5]), s)))"
proof (intro conjI)
  show "\<exists>w. init f None [] None = Inr w \<and>
      (\<forall>args kwargs. c_evaluation_checker w args kwargs \<longleftrightarrow>
         (let required = required_params (function_args info (fn_isclass f))
                           (default_count info) (length args)
          in required = [] \<or> set required \<subseteq> dom kwargs))"
    using assms by (simp add: init_arity evaluation_checker_required)
next
  have m1: "map_of [(''x'', x), (''y'', 1)] = [''x'' \<mapsto> x, ''y'' \<mapsto> (1::int)]" for x
    by (rule ext) simp
  have m5: "map_of [(''x'', x), (''y'', 5)] = [''x'' \<mapsto> x, ''y'' \<mapsto> (5::int)]" for x
    by (rule ext) simp
  have b1: "py_bind [''x'', ''y''] [1] False False [x] Map.empty =
      Inr \<lparr> bound_params = [''x'' \<mapsto> x, ''y'' \<mapsto> (1::int)], bound_varargs = [],
            bound_keywords = Map.empty \<rparr>" for x
    by (simp add: py_bind_def param_value_def upt_rec) (rule ext, simp)
  have b5: "py_bind [''x'', ''y''] [1] False False [x] [''y'' \<mapsto> 5] =
      Inr \<lparr> bound_params = [''x'' \<mapsto> x, ''y'' \<mapsto> (5::int)], bound_varargs = [],
            bound_keywords = Map.empty \<rparr>" for x
    by (simp add: py_bind_def param_value_def upt_rec restrict_map_def) (auto simp: fun_eq_iff)
  show "\<exists>w. init f_x_y1 None [] None = Inr w \<and>
      (\<forall>x s. call w [x] Map.empty s = (Inr (Result [''x'' \<mapsto> x, ''y'' \<mapsto> 1]), s) \<and>
             call w [x] [''y'' \<mapsto> 5] s = (Inr (Result [''x'' \<mapsto> x, ''y'' \<mapsto> 5]), s))"
    by (simp add: f_x_y1_def init_arity call_eq evaluation_checker_eq function_args_def
          dict_update_map_add b1 b5)
qed

theorem arity_checker_required_params_witness:
  "\<exists>w. init (f_x_y1 :: (int, unit, unit, string \<rightharpoonup> int) callable) None [] None = Inr w \<and>
     c_evaluation_checker w [7] Map.empty \<and>
     \<not> c_evaluation_checker w [] [''y'' \<mapsto> 5] \<and>
     c_evaluation_checker w [] [''x'' \<mapsto> 7] \<and>
     call w [7] Map.empty () = (Inr (Result [''x'' \<mapsto> 7, ''y'' \<mapsto> 1]), ()) \<and>
     call w [7] [''y'' \<mapsto> 5] () = (Inr (Result [''x'' \<mapsto> 7, ''y'' \<mapsto> 5]), ())"
proof -
  let ?f = "f_x_y1 :: (int, unit, unit, string \<rightharpoonup> int) callable"
  let ?info = "\<lparr> spec_args = [''x'', ''y''], spec_varargs = None, spec_keywords = None,
                  spec_defaults = Some [1] \<rparr> :: int argspec"
  have a1: "fn_argspec ?f = Some ?info" by (simp add: f_x_y1_def)
  have fa: "function_args ?info (fn_isclass ?f) = [''x'', ''y'']"
    by (simp add: function_args_def f_x_y1_def)
  have dc: "default_count ?info = Suc 0" by (simp add: default_count_def)
  have r0: "required_params [''x'', ''y''] (Suc 0) 0 = [''x'']"
    by (simp add: required_params_def has_default_def upt_rec)
  have r1: "required_params [''x'', ''y''] (Suc 0) (Suc 0) = []"
    by (simp add: required_params_def has_default_def upt_rec)
  note t = arity_checker_required_params [OF a1]
  from t [THEN conjunct1] obtain w where
    w: "init ?f None [] None = Inr w" and
    chk: "\<And>args kwargs. c_evaluation_checker w args kwargs =
         (let required = required_params (function_args ?info (fn_isclass ?f))
                           (default_count ?info) (length args)
          in required = [] \<or> set required \<subseteq> dom kwargs)"
    by blast
  have "\<exists>w. init ?f None [] None = Inr w \<and>
      (\<forall>x s. call w [x] Map.empty s = (Inr (Result [''x'' \<mapsto> x, ''y'' \<mapsto> 1]), s) \<and>
             call w [x] [''y'' \<mapsto> 5] s = (Inr (Result [''x'' \<mapsto> x, ''y'' \<mapsto> 5]), s))"
    by (rule t [THEN conjunct2])
  then obtain w' where
    w': "init ?f None [] None = Inr w'" and
    ex: "\<And>x s. call w' [x] Map.empty s = (Inr (Result [''x'' \<mapsto> x, ''y'' \<mapsto> 1]), s) \<and>
             call w' [x] [''y'' \<mapsto> 5] s = (Inr (Result [''x'' \<mapsto> x, ''y'' \<mapsto> 5]), s)"
    by blast
  from w w' have eq: "w' = w" by simp
  have c1: "c_evaluation_checker w [7] Map.empty"
    by (simp only: chk fa dc) (simp add: r1)
  have c2: "\<not> c_evaluation_checker w [] [''y'' \<mapsto> 5]"
    by (simp only: chk fa dc) (simp add: r0)
  have c3: "c_evaluation_checker w [] [''x'' \<mapsto> 7]"
    by (simp only: chk fa dc) (simp add: r0)
  from ex [of 7 "()"] eq
  have c4: "call w [7] Map.empty () = (Inr (Result [''x'' \<mapsto> 7, ''y'' \<mapsto> 1]), ())"
    and c5: "call w [7] [''y'' \<mapsto> 5] () = (Inr (Result [''x'' \<mapsto> 7, ''y'' \<mapsto> 5]), ())"
    by simp_all
  from w c1 c2 c3 c4 c5 show ?thesis by blast
qed

subsection \<open>One call of a wrapper\<close>

text \<open>
  Claim C2. A call first forms the positional arguments as the accumulated ones
  followed by the new ones, and the named arguments as the accumulated ones
  overlaid with the new ones (a name supplied now takes the new value, any other
  name keeps the accumulated one). The checker is asked about exactly these; when
  it holds the wrapped callable is called with them, and otherwise the call
  returns a wrapper of the same callable and checker that carries them.
\<close>

theorem call_merges_arguments:
  "\<exists>new_args new_kwargs.
     new_args = c_args w @ args \<and>
     dom new_kwargs = dom (c_kwargs w) \<union> dom kwargs \<and>
     (\<forall>name. new_kwargs name =
        (case kwargs name of Some v \<Rightarrow> Some v | None \<Rightarrow> c_kwargs w name)) \<and>
     call w args kwargs s =
       (if c_evaluation_checker w new_args new_kwargs
        then (map_sum id Result (fst (fn_apply (c_function w) new_args new_kwargs s)),
              snd (fn_apply (c_function w) new_args new_kwargs s))
        else (Inr (Partial \<lparr> c_function = c_function w,
                               c_evaluation_checker = c_evaluation_checker w,
                               c_args = new_args, c_kwargs = new_kwargs,
                               c_name = fn_name (c_function w),
                               c_doc = fn_doc (c_function w) \<rparr>), s))"
proof (intro exI conjI)
  show "c_args w @ args = c_args w @ args" ..
  show "dom (dict_update (c_kwargs w) kwargs) = dom (c_kwargs w) \<union> dom kwargs"
    by (simp add: dict_update_map_add Un_commute)
  show "\<forall>name. dict_update (c_kwargs w) kwargs name =
        (case kwargs name of Some v \<Rightarrow> Some v | None \<Rightarrow> c_kwargs w name)"
    by (simp add: dict_update_def)
  show "call w args kwargs s =
       (if c_evaluation_checker w (c_args w @ args) (dict_update (c_kwargs w) kwargs)
        then (map_sum id Result (fst (fn_apply (c_function w) (c_args w @ args) (dict_update (c_kwargs w) kwargs) s)),
              snd (fn_apply (c_function w) (c_args w @ args) (dict_update (c_kwargs w) kwargs) s))
        else (Inr (Partial \<lparr> c_function = c_function w,
                               c_evaluation_checker = c_evaluation_checker w,
                               c_args = c_args w @ args, c_kwargs = dict_update (c_kwargs w) kwargs,
                               c_name = fn_name (c_function w),
                               c_doc = fn_doc (c_function w) \<rparr>), s))"
    by (simp add: call_eq rebuilt_def)
qed

theorem call_merges_arguments_witness:
  "\<exists>w. init (greater_than :: (int, nat, unit, bool) callable) None [40] (Some [''y'' \<mapsto> 50])
          = Inr w \<and>
     call w [] [''y'' \<mapsto> 39] 0 = (Inr (Result True), Suc 0)"
proof -
  let ?f = "greater_than :: (int, nat, unit, bool) callable"
  let ?info = "\<lparr> spec_args = [''x'', ''y''], spec_varargs = None, spec_keywords = None,
                  spec_defaults = None \<rparr> :: int argspec"
  define w where "w = \<lparr> c_function = ?f, c_evaluation_checker = evaluation_checker ?info [''x'', ''y''],
       c_args = [40], c_kwargs = [''y'' \<mapsto> (50::int)], c_name = ''greater_than'', c_doc = None \<rparr>"
  have w: "init ?f None [40] (Some [''y'' \<mapsto> 50]) = Inr w"
    by (simp add: init_arity greater_than_def function_args_def w_def)
  have sel: "c_args w = [40]" "c_kwargs w = [''y'' \<mapsto> 50]" "c_function w = ?f"
    "c_evaluation_checker w = evaluation_checker ?info [''x'', ''y'']"
    by (simp_all add: w_def)
  from call_merges_arguments [of w "[]" "[''y'' \<mapsto> 39]" 0]
  obtain new_args new_kwargs where
    na: "new_args = c_args w @ []" and
    nk: "\<forall>name. new_kwargs name =
           (case [''y'' \<mapsto> (39::int)] name of Some v \<Rightarrow> Some v | None \<Rightarrow> c_kwargs w name)" and
    c: "call w [] [''y'' \<mapsto> 39] 0 =
       (if c_evaluation_checker w new_args new_kwargs
        then (map_sum id Result (fst (fn_apply (c_function w) new_args new_kwargs 0)),
              snd (fn_apply (c_function w) new_args new_kwargs 0))
        else (Inr (Partial \<lparr> c_function = c_function w,
                               c_evaluation_checker = c_evaluation_checker w,
                               c_args = new_args, c_kwargs = new_kwargs,
                               c_name = fn_name (c_function w),
                               c_doc = fn_doc (c_function w) \<rparr>), 0))"
    by blast
  have nk': "new_kwargs = [''y'' \<mapsto> 39]"
    by (rule ext) (simp add: nk sel)
  have na': "new_args = [40]" by (simp add: na sel)
  have ap: "fn_apply ?f [40] [''y'' \<mapsto> 39] 0 = (Inr True, Suc 0)"
    by (simp add: greater_than_def py_bind_def param_value_def upt_rec)
  have ck: "evaluation_checker ?info [''x'', ''y''] [40] [''y'' \<mapsto> 39]"
    by (simp add: evaluation_checker_eq)
  have "call w [] [''y'' \<mapsto> 39] 0 = (Inr (Result True), Suc 0)"
    unfolding c na' nk' sel by (simp add: ck ap)
  with w show ?thesis by blast
qed

subsection \<open>Exceptions of the wrapped callable\<close>

text \<open>
  Claim C9. When the checker holds, a call of the wrapper is the call of the
  wrapped callable on the merged arguments: same exception or same result, same
  state, one evaluation. A call of a wrapper raises an exception exactly when
  the checker holds and the wrapped callable raises that exception.
\<close>

theorem wrapped_exception_propagates:
  "(c_evaluation_checker w (c_args w @ args) (dict_update (c_kwargs w) kwargs) \<longrightarrow>
      call w args kwargs s =
        (map_sum id Result
           (fst (fn_apply (c_function w) (c_args w @ args) (dict_update (c_kwargs w) kwargs) s)),
         snd (fn_apply (c_function w) (c_args w @ args) (dict_update (c_kwargs w) kwargs) s))) \<and>
   (\<forall>e. fst (call w args kwargs s) = Inl e \<longleftrightarrow>
      c_evaluation_checker w (c_args w @ args) (dict_update (c_kwargs w) kwargs) \<and>
      fst (fn_apply (c_function w) (c_args w @ args) (dict_update (c_kwargs w) kwargs) s) = Inl e)"
  by (cases "fst (fn_apply (c_function w) (c_args w @ args) (dict_update (c_kwargs w) kwargs) s)")
     (auto simp: call_eq)

theorem wrapped_exception_propagates_witness:
  "\<exists>w. init (divide :: (int, nat, string, int) callable) None [] None = Inr w \<and>
     call w [1, 0] Map.empty 0 = (Inl (Raised ''ZeroDivisionError''), 0) \<and>
     call w [6, 3] Map.empty 0 = (Inr (Result 2), 0) \<and>
     (\<forall>e. fst (call w [1] Map.empty 0) \<noteq> Inl e)"
proof -
  let ?f = "divide :: (int, nat, string, int) callable"
  let ?info = "\<lparr> spec_args = [''x'', ''y''], spec_varargs = None, spec_keywords = None,
                  spec_defaults = None \<rparr> :: int argspec"
  let ?w = "\<lparr> c_function = ?f, c_evaluation_checker = evaluation_checker ?info [''x'', ''y''],
       c_args = [], c_kwargs = Map.empty, c_name = ''divide'', c_doc = None \<rparr>"
  have w: "init ?f None [] None = Inr ?w"
    by (simp add: init_arity divide_def function_args_def)
  have a0: "fn_apply ?f [1, 0] Map.empty 0 = (Inl (Raised ''ZeroDivisionError''), 0)"
    by (simp add: divide_def py_bind_def param_value_def upt_rec)
  have a3: "fn_apply ?f [6, 3] Map.empty 0 = (Inr 2, 0)"
    by (simp add: divide_def py_bind_def param_value_def upt_rec)
  from wrapped_exception_propagates [of ?w "[1, 0]" Map.empty 0]
       wrapped_exception_propagates [of ?w "[6, 3]" Map.empty 0]
       wrapped_exception_propagates [of ?w "[1]" Map.empty 0]
  show ?thesis
    by (simp add: w a0 a3 evaluation_checker_eq)
qed

subsection \<open>The unrecognized-argument check\<close>

text \<open>
  Claim C5, at the input \<^verbatim>\<open>curry(greater_than)(1, z=2)\<close>. \<^verbatim>\<open>greater_than(x, y)\<close>
  takes no \<^verbatim>\<open>**keywords\<close> and \<open>z\<close> is not one of its parameters. The checker
  builds the \<^verbatim>\<open>TypeError\<close> of line 74, and the call returns a wrapper holding
  \<open>z\<close>: nothing is raised.
\<close>

theorem unrecognized_argument_not_raised:
  "\<exists>w. init (greater_than :: (int, nat, 'e, bool) callable) None [] None = Inr w \<and>
     unrecognized_arguments
       \<lparr> spec_args = [''x'', ''y''], spec_varargs = None, spec_keywords = None,
         spec_defaults = None \<rparr> [''x'', ''y''] [1::int] [''z'' \<mapsto> 2] =
       Some (UnrecognizedArguments {''z''}) \<and>
     call w [1] [''z'' \<mapsto> 2] s = (Inr (Partial (rebuilt w [1] [''z'' \<mapsto> 2])), s)"
  by (auto simp: init_arity greater_than_def function_args_def unrecognized_arguments_def
        call_eq evaluation_checker_eq dict_update_map_add)

subsection \<open>The count checker\<close>

lemma init_checker_given:
  "init f (Some c) a None =
     Inr \<lparr> c_function = f, c_evaluation_checker = c, c_args = a, c_kwargs = Map.empty,
           c_name = fn_name f, c_doc = fn_doc f \<rparr>"
  by (simp add: init_def checker_or_def kwargs_or_empty_def)

lemma all_deferred_count:
  "c_evaluation_checker w = count_evaluation_checker count \<Longrightarrow>
   int (length (c_args w) + sum_list (map (length \<circ> fst) cs)) < count \<Longrightarrow>
   all_deferred w cs"
proof (induction cs arbitrary: w)
  case Nil
  show ?case by simp
next
  case (Cons c cs)
  obtain a k where c: "c = (a, k)" by (cases c)
  let ?w' = "rebuilt w (c_args w @ a) (dict_update (c_kwargs w) k)"
  have "all_deferred ?w' cs"
    using Cons.prems c by (intro Cons.IH) simp_all
  with Cons.prems c show ?case
    by (simp add: count_evaluation_checker_def)
qed

lemma dom_foldl_dict_update:
  "dom (foldl dict_update d ks) = dom d \<union> (\<Union>k \<in> set ks. dom k)"
  by (induction ks arbitrary: d) (auto simp: dict_update_map_add)

text \<open>
  Claim C6. The count checker holds exactly when at least \<open>count\<close> positional
  arguments are present, whatever the named arguments are. For a wrapper with
  this checker: when the calls before the last supply fewer than \<open>count\<close>
  positional arguments and the last call reaches \<open>count\<close>, the last call evaluates
  the wrapped callable once, on all positional arguments in order and on the
  named arguments of all the calls (every name supplied along the way is
  present; a name supplied twice has its latest value).
\<close>

theorem count_checker_threshold:
  fixes f :: "('v, 's, 'e, 'r) callable"
  shows "(count_evaluation_checker count args kwargs \<longleftrightarrow> count \<le> int (length args)) \<and>
    (\<exists>w0. init f (Some (count_evaluation_checker count)) [] None = Inr w0 \<and>
       ((pre = [] \<or> int (sum_list (map (length \<circ> fst) pre)) < count) \<and>
        count \<le> int (sum_list (map (length \<circ> fst) pre) + length args) \<longrightarrow>
        call_seq w0 (pre @ [(args, kwargs)]) s =
          (map (Inr \<circ> Partial) (accumulate w0 pre) @
             [map_sum id Result
                (fst (fn_apply f (concat (map fst pre) @ args)
                        (foldl dict_update Map.empty (map snd pre @ [kwargs])) s))],
           snd (fn_apply f (concat (map fst pre) @ args)
                  (foldl dict_update Map.empty (map snd pre @ [kwargs])) s)) \<and>
        dom (foldl dict_update Map.empty (map snd pre @ [kwargs])) =
          (\<Union>k \<in> set (map snd pre @ [kwargs]). dom k)))"
proof -
  let ?c = "count_evaluation_checker count :: 'v checker"
  let ?w0 = "\<lparr> c_function = f, c_evaluation_checker = ?c, c_args = [], c_kwargs = Map.empty,
       c_name = fn_name f, c_doc = fn_doc f \<rparr>"
  let ?merged = "foldl dict_update Map.empty (map snd pre @ [kwargs])"
  have w0: "init f (Some ?c) [] None = Inr ?w0"
    by (rule init_checker_given)
  have seq: "call_seq ?w0 (pre @ [(args, kwargs)]) s =
          (map (Inr \<circ> Partial) (accumulate ?w0 pre) @
             [map_sum id Result (fst (fn_apply f (concat (map fst pre) @ args) ?merged s))],
           snd (fn_apply f (concat (map fst pre) @ args) ?merged s))"
    if pre: "pre = [] \<or> int (sum_list (map (length \<circ> fst) pre)) < count"
      and tot: "count \<le> int (sum_list (map (length \<circ> fst) pre) + length args)"
  proof -
    have d: "all_deferred ?w0 pre"
      using pre by (auto intro: all_deferred_count [where count = count])
    have lastw:
      "c_args (last (?w0 # accumulate ?w0 pre)) = concat (map fst pre)"
      "c_kwargs (last (?w0 # accumulate ?w0 pre)) = foldl dict_update Map.empty (map snd pre)"
      "c_evaluation_checker (last (?w0 # accumulate ?w0 pre)) = ?c"
      "c_function (last (?w0 # accumulate ?w0 pre)) = f"
      by (simp_all add: last_accumulate del: last.simps)
    have chk: "?c (concat (map fst pre) @ args) ?merged"
      using tot by (simp add: count_evaluation_checker_def length_concat comp_def)
    have m: "?merged = dict_update (foldl dict_update Map.empty (map snd pre)) kwargs"
      by simp
    show ?thesis
      unfolding call_seq_final [OF d]
      by (simp add: call_eq lastw chk [unfolded m] del: last.simps)
  qed
  have dm: "dom ?merged = (\<Union>k \<in> set (map snd pre @ [kwargs]). dom k)"
    by (simp only: dom_foldl_dict_update) simp
  have chk: "count_evaluation_checker count args kwargs \<longleftrightarrow> count \<le> int (length args)"
    by (simp add: count_evaluation_checker_def)
  show ?thesis
    using w0 seq dm chk by blast
qed

theorem count_checker_threshold_witness:
  "\<exists>w0. init (args_kwargs :: (int, nat, unit, int list \<times> int kwargs) callable)
            (Some (count_evaluation_checker 3)) [] None = Inr w0 \<and>
     call_seq w0 [([1], [''a'' \<mapsto> 10]), ([2], Map.empty), ([3], [''b'' \<mapsto> 20])] 0 =
       ([Inr (Partial (rebuilt w0 [1] [''a'' \<mapsto> 10])),
         Inr (Partial (rebuilt w0 [1, 2] [''a'' \<mapsto> 10])),
         Inr (Result ([1, 2, 3], [''a'' \<mapsto> 10, ''b'' \<mapsto> 20]))], Suc 0)"
proof -
  let ?f = "args_kwargs :: (int, nat, unit, int list \<times> int kwargs) callable"
  let ?pre = "[([1], [''a'' \<mapsto> 10]), ([2], Map.empty)] :: (int list \<times> int kwargs) list"
  from count_checker_threshold [of 3 "[3::int]" "[''b'' \<mapsto> (20::int)]" ?f ?pre 0]
  obtain w0 where
    w0: "init ?f (Some (count_evaluation_checker 3)) [] None = Inr w0" and
    imp: "(?pre = [] \<or> int (sum_list (map (length \<circ> fst) ?pre)) < 3) \<and>
        3 \<le> int (sum_list (map (length \<circ> fst) ?pre) + length [3::int]) \<longrightarrow>
        call_seq w0 (?pre @ [([3], [''b'' \<mapsto> 20])]) 0 =
          (map (Inr \<circ> Partial) (accumulate w0 ?pre) @
             [map_sum id Result
                (fst (fn_apply ?f (concat (map fst ?pre) @ [3])
                        (foldl dict_update Map.empty (map snd ?pre @ [[''b'' \<mapsto> 20]])) 0))],
           snd (fn_apply ?f (concat (map fst ?pre) @ [3])
                  (foldl dict_update Map.empty (map snd ?pre @ [[''b'' \<mapsto> 20]])) 0))"
    by blast
  have w0': "c_args w0 = []" "c_kwargs w0 = Map.empty"
    using w0 by (auto simp: init_checker_given)
  have "call_seq w0 (?pre @ [([3], [''b'' \<mapsto> 20])]) 0 =
          (map (Inr \<circ> Partial) (accumulate w0 ?pre) @
             [map_sum id Result
                (fst (fn_apply ?f (concat (map fst ?pre) @ [3])
                        (foldl dict_update Map.empty (map snd ?pre @ [[''b'' \<mapsto> 20]])) 0))],
           snd (fn_apply ?f (concat (map fst ?pre) @ [3])
                  (foldl dict_update Map.empty (map snd ?pre @ [[''b'' \<mapsto> 20]])) 0))"
    using imp by simp
  then have "call_seq w0 [([1], [''a'' \<mapsto> 10]), ([2], Map.empty), ([3], [''b'' \<mapsto> 20])] 0 =
       ([Inr (Partial (rebuilt w0 [1] [''a'' \<mapsto> 10])),
         Inr (Partial (rebuilt w0 [1, 2] [''a'' \<mapsto> 10])),
         Inr (Result ([1, 2, 3], [''a'' \<mapsto> 10, ''b'' \<mapsto> 20]))], Suc 0)"
    by (simp add: Let_def w0' dict_update_map_add args_kwargs_def)
  with w0 show ?thesis by blast
qed

subsection \<open>The exported, curried constructor\<close>

lemma curry_class_sel [simp]:
  "fn_name curry_class = ''curry''"
  "fn_doc curry_class = Some ''Curry a function or method.''"
  "fn_isclass curry_class = True"
  "fn_argspec curry_class =
     Some \<lparr> spec_args = ''self'' # init_params, spec_varargs = None,
            spec_keywords = None, spec_defaults = Some init_defaults \<rparr>"
  "fn_apply curry_class args kwargs t = (curry_new args kwargs, t)"
  by (simp_all add: curry_class_def)

lemma curry_exported_eq:
  "curry_exported =
     Inr \<lparr> c_function = curry_class,
           c_evaluation_checker =
             evaluation_checker
               \<lparr> spec_args = ''self'' # init_params, spec_varargs = None,
                 spec_keywords = None, spec_defaults = Some init_defaults \<rparr> init_params,
           c_args = [], c_kwargs = Map.empty,
           c_name = ''curry'', c_doc = Some ''Curry a function or method.'' \<rparr>"
  by (simp add: curry_exported_def init_arity function_args_def)

lemma exported_checker:
  "evaluation_checker
     \<lparr> spec_args = ''self'' # init_params, spec_varargs = None,
       spec_keywords = None, spec_defaults = Some init_defaults \<rparr> init_params a k
   \<longleftrightarrow> (a = [] \<longrightarrow> ''function'' \<in> dom k)"
  by (cases a) (simp_all add: evaluation_checker_eq init_params_def init_defaults_def)

lemma bind_function_with_checker:
  "py_bind init_params init_defaults False False [PyFunction f]
     [''evaluation_checker'' \<mapsto> PyChecker X] =
   Inr \<lparr> bound_params =
           map_of [(''function'', PyFunction f), (''evaluation_checker'', PyChecker X),
                   (''args'', PyTuple []), (''kwargs'', PyNone)],
         bound_varargs = [], bound_keywords = Map.empty \<rparr>"
  by (simp add: py_bind_def param_value_def init_params_def init_defaults_def upt_rec
        restrict_map_def)
     (auto simp: fun_eq_iff)

lemma curry_new_function_with_checker:
  "curry_new [PyFunction f] [''evaluation_checker'' \<mapsto> PyChecker X] = init f (Some X) [] None"
  by (simp add: curry_new_def bind_function_with_checker as_checker_def as_kwargs_def)

text \<open>
  Claim C8. The exported name is the class wrapped by itself. Called with only
  the named argument \<^verbatim>\<open>evaluation_checker\<close>, it returns a wrapper that holds this
  argument and still waits for the callable (called with nothing, it stays a
  wrapper). Applied to one callable, that wrapper evaluates the constructor: the
  result is a wrapper object for the callable with the given checker and empty
  accumulators, not a result of the callable.
\<close>

theorem exported_curry_is_curried:
  "\<exists>cw factory.
     curry_exported = Inr cw \<and>
     call cw [] [''evaluation_checker'' \<mapsto> PyChecker X] t = (Inr (Partial factory), t) \<and>
     c_function factory = curry_class \<and> c_args factory = [] \<and>
     c_kwargs factory = [''evaluation_checker'' \<mapsto> PyChecker X] \<and>
     call factory [] Map.empty t = (Inr (Partial factory), t) \<and>
     (\<forall>f. call factory [PyFunction f] Map.empty t =
        (Inr (Result \<lparr> c_function = f, c_evaluation_checker = X, c_args = [],
                       c_kwargs = Map.empty, c_name = fn_name f, c_doc = fn_doc f \<rparr>), t))"
  by (simp add: curry_exported_eq call_eq exported_checker dict_update_map_add
        curry_new_function_with_checker init_checker_given rebuilt_def)


theorem exported_curry_is_curried_witness:
  "\<exists>cw factory w.
     (curry_exported ::
        unit exn + ((int, nat, unit, int list \<times> int kwargs) py_value, unit, unit,
                    (int, nat, unit, int list \<times> int kwargs) curry_value) curry_value) = Inr cw \<and>
     call cw [] [''evaluation_checker'' \<mapsto> PyChecker (count_evaluation_checker 2)] () =
       (Inr (Partial factory), ()) \<and>
     call factory [PyFunction args_kwargs] Map.empty () = (Inr (Result w), ()) \<and>
     call w [1] Map.empty 0 = (Inr (Partial (rebuilt w [1] Map.empty)), 0) \<and>
     call (rebuilt w [1] Map.empty) [2] Map.empty 0 = (Inr (Result ([1, 2], Map.empty)), Suc 0)"
proof -
  let ?X = "count_evaluation_checker 2 :: int checker"
  let ?f = "args_kwargs :: (int, nat, unit, int list \<times> int kwargs) callable"
  let ?w = "\<lparr> c_function = ?f, c_evaluation_checker = ?X, c_args = [],
              c_kwargs = Map.empty, c_name = fn_name ?f, c_doc = fn_doc ?f \<rparr>"
  have "\<exists>cw factory.
     (curry_exported ::
        unit exn + ((int, nat, unit, int list \<times> int kwargs) py_value, unit, unit,
                    (int, nat, unit, int list \<times> int kwargs) curry_value) curry_value) = Inr cw \<and>
     call cw [] [''evaluation_checker'' \<mapsto> PyChecker ?X] () = (Inr (Partial factory), ()) \<and>
     c_function factory = curry_class \<and> c_args factory = [] \<and>
     c_kwargs factory = [''evaluation_checker'' \<mapsto> PyChecker ?X] \<and>
     call factory [] Map.empty () = (Inr (Partial factory), ()) \<and>
     (\<forall>f. call factory [PyFunction f] Map.empty () =
        (Inr (Result \<lparr> c_function = f, c_evaluation_checker = ?X, c_args = [],
                       c_kwargs = Map.empty, c_name = fn_name f, c_doc = fn_doc f \<rparr>), ()))"
    by (rule exported_curry_is_curried)
  then obtain cw factory where
    cw: "(curry_exported ::
        unit exn + ((int, nat, unit, int list \<times> int kwargs) py_value, unit, unit,
                    (int, nat, unit, int list \<times> int kwargs) curry_value) curry_value) = Inr cw" and
    fac: "call cw [] [''evaluation_checker'' \<mapsto> PyChecker ?X] () = (Inr (Partial factory), ())" and
    app: "\<And>f. call factory [PyFunction f] Map.empty () =
        (Inr (Result \<lparr> c_function = f, c_evaluation_checker = ?X, c_args = [],
                       c_kwargs = Map.empty, c_name = fn_name f, c_doc = fn_doc f \<rparr>), ())"
    by blast
  have one: "call ?w [1] Map.empty 0 = (Inr (Partial (rebuilt ?w [1] Map.empty)), 0)"
    by (simp add: call_eq count_evaluation_checker_def)
  have two: "call (rebuilt ?w [1] Map.empty) [2] Map.empty 0 =
      (Inr (Result ([1, 2], Map.empty)), Suc 0)"
    by (simp add: call_eq count_evaluation_checker_def args_kwargs_def)
  from cw fac app [of ?f] one two show ?thesis by blast
qed

subsection \<open>Wrapper objects: calls\<close>

lemma obj_init_given:
  "\<exists>p st' pw. obj_init f (Some c) a (Some d) st = (Inr p, st') \<and>
     next_addr st \<le> p \<and> p < next_addr st' \<and> wrappers st' p = Some pw \<and>
     c_function pw = f \<and> c_evaluation_checker pw = c \<and> c_args pw = a \<and>
     c_name pw = fn_name f \<and> c_doc pw = fn_doc f \<and>
     (c_kwargs pw = d \<or> next_addr st \<le> c_kwargs pw \<and> c_kwargs pw < next_addr st') \<and>
     dicts st' (c_kwargs pw) = Some (case dicts st d of Some m \<Rightarrow> m | None \<Rightarrow> Map.empty) \<and>
     (\<forall>x. x < next_addr st \<longrightarrow> wrappers st' x = wrappers st x \<and> dicts st' x = dicts st x) \<and>
     attributes st' = attributes st \<and> next_addr st \<le> next_addr st'"
  by (auto simp: obj_init_def checker_or_def kwargs_or_new_def new_dict_def new_wrapper_def
        split: option.splits)


lemma obj_call_evaluates:
  assumes "wrappers st self = Some w" and "dicts st (c_kwargs w) = Some kw"
    and "c_evaluation_checker w (c_args w @ a) (dict_update kw k)"
  shows "\<exists>st'. obj_call self a k st s =
        Some (map_sum id Result (fst (fn_apply (c_function w) (c_args w @ a) (dict_update kw k) s)),
              st', snd (fn_apply (c_function w) (c_args w @ a) (dict_update kw k) s)) \<and>
      (\<forall>x. x < next_addr st \<longrightarrow> wrappers st' x = wrappers st x \<and> dicts st' x = dicts st x) \<and>
      attributes st' = attributes st \<and> next_addr st \<le> next_addr st'"
  using assms
  by (simp add: obj_call_def new_dict_def update_at_def dict_copy_def Let_def
        split: prod.splits)

lemma obj_call_deferred:
  assumes "wrappers st self = Some w" and "dicts st (c_kwargs w) = Some kw"
    and "\<not> c_evaluation_checker w (c_args w @ a) (dict_update kw k)"
  shows "\<exists>p st' pw. obj_call self a k st s = Some (Inr (Partial p), st', s) \<and>
      next_addr st \<le> p \<and> p < next_addr st' \<and> wrappers st' p = Some pw \<and>
      c_function pw = c_function w \<and> c_evaluation_checker pw = c_evaluation_checker w \<and>
      c_args pw = c_args w @ a \<and>
      c_name pw = fn_name (c_function w) \<and> c_doc pw = fn_doc (c_function w) \<and>
      next_addr st \<le> c_kwargs pw \<and> c_kwargs pw < next_addr st' \<and>
      dicts st' (c_kwargs pw) = Some (dict_update kw k) \<and>
      (\<forall>x. x < next_addr st \<longrightarrow> wrappers st' x = wrappers st x \<and> dicts st' x = dicts st x) \<and>
      attributes st' = attributes st \<and> next_addr st \<le> next_addr st'"
proof -
  let ?d = "next_addr st"
  let ?st2 = "st\<lparr> next_addr := Suc ?d, dicts := (dicts st)(?d \<mapsto> dict_update kw k) \<rparr>"
  have st2: "update_at ?d k (snd (new_dict (dict_copy kw) st)) = ?st2"
    by (simp add: new_dict_def update_at_def dict_copy_def)
  from obj_init_given [of "c_function w" "c_evaluation_checker w" "c_args w @ a" ?d ?st2]
  obtain p st' pw where
    i: "obj_init (c_function w) (Some (c_evaluation_checker w)) (c_args w @ a) (Some ?d) ?st2 =
          (Inr p, st')" and
    p: "next_addr ?st2 \<le> p" "p < next_addr st'" "wrappers st' p = Some pw"
       "c_function pw = c_function w" "c_evaluation_checker pw = c_evaluation_checker w"
       "c_args pw = c_args w @ a" "c_name pw = fn_name (c_function w)"
       "c_doc pw = fn_doc (c_function w)" and
    k: "c_kwargs pw = ?d \<or> next_addr ?st2 \<le> c_kwargs pw \<and> c_kwargs pw < next_addr st'" and
    dk: "dicts st' (c_kwargs pw) =
           Some (case dicts ?st2 ?d of Some m \<Rightarrow> m | None \<Rightarrow> Map.empty)" and
    fr: "\<forall>x. x < next_addr ?st2 \<longrightarrow> wrappers st' x = wrappers ?st2 x \<and> dicts st' x = dicts ?st2 x" and
    at: "attributes st' = attributes ?st2" and
    nx: "next_addr ?st2 \<le> next_addr st'"
    by blast
  have call: "obj_call self a k st s = Some (Inr (Partial p), st', s)"
    using assms i
    by (simp add: obj_call_def new_dict_def update_at_def dict_copy_def Let_def)
  from fr have fr': "\<forall>x. x < next_addr st \<longrightarrow> wrappers st' x = wrappers st x \<and> dicts st' x = dicts st x"
    by simp
  from call p k dk fr' at nx show ?thesis
    by (intro exI [of _ p] exI [of _ st'] exI [of _ pw]) auto
qed


lemma obj_get_class: "wrappers st self = Some w \<Longrightarrow> obj_get self None st = Some (Inr self, st)"
  by (simp add: obj_get_def)

lemma obj_get_instance:
  assumes "wrappers st self = Some w" and "fn_doc (c_function w) = Some d"
  shows "\<exists>b st' bw. obj_get self (Some instance) st = Some (Inr b, st') \<and>
      next_addr st \<le> b \<and> b < next_addr st' \<and> wrappers st' b = Some bw \<and>
      c_function bw = c_function w \<and> c_evaluation_checker bw = c_evaluation_checker w \<and>
      c_args bw = c_args w @ [instance] \<and>
      (c_kwargs bw = c_kwargs w \<or> next_addr st \<le> c_kwargs bw \<and> c_kwargs bw < next_addr st') \<and>
      dicts st' (c_kwargs bw) =
        Some (case dicts st (c_kwargs w) of Some m \<Rightarrow> m | None \<Rightarrow> Map.empty) \<and>
      (\<forall>x. x < next_addr st \<longrightarrow> wrappers st' x = wrappers st x \<and> dicts st' x = dicts st x) \<and>
      attributes st' =
        (attributes st)(instance :=
           (attributes st instance)(fn_name (c_function w) \<mapsto> b, d \<mapsto> b)) \<and>
      next_addr st \<le> next_addr st'"
proof -
  from obj_init_given [of "c_function w" "c_evaluation_checker w" "c_args w @ [instance]"
      "c_kwargs w" st]
  obtain b st1 bw where
    i: "obj_init (c_function w) (Some (c_evaluation_checker w)) (c_args w @ [instance])
          (Some (c_kwargs w)) st = (Inr b, st1)" and
    b: "next_addr st \<le> b" "b < next_addr st1" "wrappers st1 b = Some bw"
       "c_function bw = c_function w" "c_evaluation_checker bw = c_evaluation_checker w"
       "c_args bw = c_args w @ [instance]" and
    k: "c_kwargs bw = c_kwargs w \<or> next_addr st \<le> c_kwargs bw \<and> c_kwargs bw < next_addr st1" and
    dk: "dicts st1 (c_kwargs bw) =
           Some (case dicts st (c_kwargs w) of Some m \<Rightarrow> m | None \<Rightarrow> Map.empty)" and
    fr: "\<forall>x. x < next_addr st \<longrightarrow> wrappers st1 x = wrappers st x \<and> dicts st1 x = dicts st x" and
    at: "attributes st1 = attributes st" and
    nx: "next_addr st \<le> next_addr st1"
    by blast
  let ?st' = "st1\<lparr> attributes := (attributes st)(instance :=
           (attributes st instance)(fn_name (c_function w) \<mapsto> b, d \<mapsto> b)) \<rparr>"
  have g: "obj_get self (Some instance) st = Some (Inr b, ?st')"
    using assms i at by (simp add: obj_get_def py_setattr_def)
  from g b k dk fr nx show ?thesis
    by (intro exI [of _ b] exI [of _ ?st'] exI [of _ bw]) auto
qed

text \<open>
  Claim C4. Let the wrapper object at \<open>self\<close> and its dictionary be allocated.
  Two calls of it with insufficient arguments return two wrapper objects at new,
  different addresses, each with a dictionary of its own, holding the arguments
  of its own call only; the object at \<open>self\<close> (callable, checker, positional
  arguments) and the contents of its dictionary are the same after each call,
  and so is everything else that was allocated. Two completions of the same
  wrapper each evaluate the wrapped callable on the wrapper's arguments followed
  by the arguments of that completion alone, whatever the other completion was.
\<close>

theorem partial_call_leaves_wrapper_unchanged:
  assumes w: "wrappers st self = Some w" and kw: "dicts st (c_kwargs w) = Some kw"
    and alloc: "self < next_addr st" "c_kwargs w < next_addr st"
  shows
    "(\<not> c_evaluation_checker w (c_args w @ a1) (dict_update kw k1) \<and>
      \<not> c_evaluation_checker w (c_args w @ a2) (dict_update kw k2) \<longrightarrow>
        (\<exists>p1 st1 pw1 p2 st2 pw2.
           obj_call self a1 k1 st s = Some (Inr (Partial p1), st1, s) \<and>
           obj_call self a2 k2 st1 s = Some (Inr (Partial p2), st2, s) \<and>
           p1 \<noteq> self \<and> p2 \<noteq> self \<and> p1 \<noteq> p2 \<and>
           next_addr st \<le> p1 \<and> next_addr st1 \<le> p2 \<and>
           wrappers st2 p1 = Some pw1 \<and> wrappers st2 p2 = Some pw2 \<and>
           c_function pw1 = c_function w \<and> c_function pw2 = c_function w \<and>
           c_evaluation_checker pw1 = c_evaluation_checker w \<and>
           c_evaluation_checker pw2 = c_evaluation_checker w \<and>
           c_args pw1 = c_args w @ a1 \<and> c_args pw2 = c_args w @ a2 \<and>
           c_kwargs pw1 \<noteq> c_kwargs w \<and> c_kwargs pw2 \<noteq> c_kwargs w \<and>
           c_kwargs pw1 \<noteq> c_kwargs pw2 \<and>
           dicts st2 (c_kwargs pw1) = Some (dict_update kw k1) \<and>
           dicts st2 (c_kwargs pw2) = Some (dict_update kw k2) \<and>
           wrappers st1 self = Some w \<and> dicts st1 (c_kwargs w) = Some kw \<and>
           wrappers st2 self = Some w \<and> dicts st2 (c_kwargs w) = Some kw \<and>
           (\<forall>x. x < next_addr st \<longrightarrow>
              wrappers st2 x = wrappers st x \<and> dicts st2 x = dicts st x) \<and>
           attributes st2 = attributes st)) \<and>
     (c_evaluation_checker w (c_args w @ a1) (dict_update kw k1) \<and>
      c_evaluation_checker w (c_args w @ a2) (dict_update kw k2) \<longrightarrow>
        (\<exists>st1 st2.
           obj_call self a1 k1 st s =
             Some (map_sum id Result
                     (fst (fn_apply (c_function w) (c_args w @ a1) (dict_update kw k1) s)),
                   st1,
                   snd (fn_apply (c_function w) (c_args w @ a1) (dict_update kw k1) s)) \<and>
           obj_call self a2 k2 st1 s' =
             Some (map_sum id Result
                     (fst (fn_apply (c_function w) (c_args w @ a2) (dict_update kw k2) s')),
                   st2,
                   snd (fn_apply (c_function w) (c_args w @ a2) (dict_update kw k2) s')) \<and>
           wrappers st2 self = Some w \<and> dicts st2 (c_kwargs w) = Some kw))"
proof (intro conjI impI)
  assume "\<not> c_evaluation_checker w (c_args w @ a1) (dict_update kw k1) \<and>
      \<not> c_evaluation_checker w (c_args w @ a2) (dict_update kw k2)"
  then have n1: "\<not> c_evaluation_checker w (c_args w @ a1) (dict_update kw k1)"
    and n2: "\<not> c_evaluation_checker w (c_args w @ a2) (dict_update kw k2)"
    by simp_all
  from obj_call_deferred [OF w kw n1, of s]
  obtain p1 st1 pw1 where
    c1: "obj_call self a1 k1 st s = Some (Inr (Partial p1), st1, s)" and
    p1: "next_addr st \<le> p1" "p1 < next_addr st1" "wrappers st1 p1 = Some pw1"
        "c_function pw1 = c_function w" "c_evaluation_checker pw1 = c_evaluation_checker w"
        "c_args pw1 = c_args w @ a1" and
    d1: "next_addr st \<le> c_kwargs pw1" "c_kwargs pw1 < next_addr st1"
        "dicts st1 (c_kwargs pw1) = Some (dict_update kw k1)" and
    f1: "\<forall>x. x < next_addr st \<longrightarrow> wrappers st1 x = wrappers st x \<and> dicts st1 x = dicts st x" and
    a1: "attributes st1 = attributes st" and
    n1': "next_addr st \<le> next_addr st1"
    by blast
  from f1 w kw alloc have w1: "wrappers st1 self = Some w" and kw1: "dicts st1 (c_kwargs w) = Some kw"
    by simp_all
  from obj_call_deferred [OF w1 kw1 n2, of s]
  obtain p2 st2 pw2 where
    c2: "obj_call self a2 k2 st1 s = Some (Inr (Partial p2), st2, s)" and
    p2: "next_addr st1 \<le> p2" "p2 < next_addr st2" "wrappers st2 p2 = Some pw2"
        "c_function pw2 = c_function w" "c_evaluation_checker pw2 = c_evaluation_checker w"
        "c_args pw2 = c_args w @ a2" and
    d2: "next_addr st1 \<le> c_kwargs pw2" "c_kwargs pw2 < next_addr st2"
        "dicts st2 (c_kwargs pw2) = Some (dict_update kw k2)" and
    f2: "\<forall>x. x < next_addr st1 \<longrightarrow> wrappers st2 x = wrappers st1 x \<and> dicts st2 x = dicts st1 x" and
    a2: "attributes st2 = attributes st1" and
    n2': "next_addr st1 \<le> next_addr st2"
    by blast
  have keep1: "wrappers st2 p1 = Some pw1" "dicts st2 (c_kwargs pw1) = Some (dict_update kw k1)"
    using f2 p1 d1 by simp_all
  have self2: "wrappers st2 self = Some w" "dicts st2 (c_kwargs w) = Some kw"
    using f2 w1 kw1 alloc n1' by simp_all
  have fr: "\<forall>x. x < next_addr st \<longrightarrow> wrappers st2 x = wrappers st x \<and> dicts st2 x = dicts st x"
    using f1 f2 n1' by simp
  have ne: "p1 \<noteq> self" "p2 \<noteq> self" "p1 \<noteq> p2" "c_kwargs pw1 \<noteq> c_kwargs w"
    "c_kwargs pw2 \<noteq> c_kwargs w" "c_kwargs pw1 \<noteq> c_kwargs pw2"
    using p1 p2 d1 d2 alloc n1' by simp_all
  show "\<exists>p1 st1 pw1 p2 st2 pw2.
           obj_call self a1 k1 st s = Some (Inr (Partial p1), st1, s) \<and>
           obj_call self a2 k2 st1 s = Some (Inr (Partial p2), st2, s) \<and>
           p1 \<noteq> self \<and> p2 \<noteq> self \<and> p1 \<noteq> p2 \<and>
           next_addr st \<le> p1 \<and> next_addr st1 \<le> p2 \<and>
           wrappers st2 p1 = Some pw1 \<and> wrappers st2 p2 = Some pw2 \<and>
           c_function pw1 = c_function w \<and> c_function pw2 = c_function w \<and>
           c_evaluation_checker pw1 = c_evaluation_checker w \<and>
           c_evaluation_checker pw2 = c_evaluation_checker w \<and>
           c_args pw1 = c_args w @ a1 \<and> c_args pw2 = c_args w @ a2 \<and>
           c_kwargs pw1 \<noteq> c_kwargs w \<and> c_kwargs pw2 \<noteq> c_kwargs w \<and>
           c_kwargs pw1 \<noteq> c_kwargs pw2 \<and>
           dicts st2 (c_kwargs pw1) = Some (dict_update kw k1) \<and>
           dicts st2 (c_kwargs pw2) = Some (dict_update kw k2) \<and>
           wrappers st1 self = Some w \<and> dicts st1 (c_kwargs w) = Some kw \<and>
           wrappers st2 self = Some w \<and> dicts st2 (c_kwargs w) = Some kw \<and>
           (\<forall>x. x < next_addr st \<longrightarrow>
              wrappers st2 x = wrappers st x \<and> dicts st2 x = dicts st x) \<and>
           attributes st2 = attributes st"
    apply (rule exI [of _ p1], rule exI [of _ st1], rule exI [of _ pw1])
    apply (rule exI [of _ p2], rule exI [of _ st2], rule exI [of _ pw2])
    using c1 c2 p1 p2 d1 d2 keep1 self2 w1 kw1 fr ne a1 a2 by simp
next
  assume "c_evaluation_checker w (c_args w @ a1) (dict_update kw k1) \<and>
      c_evaluation_checker w (c_args w @ a2) (dict_update kw k2)"
  then have y1: "c_evaluation_checker w (c_args w @ a1) (dict_update kw k1)"
    and y2: "c_evaluation_checker w (c_args w @ a2) (dict_update kw k2)"
    by simp_all
  from obj_call_evaluates [OF w kw y1, of s]
  obtain st1 where
    c1: "obj_call self a1 k1 st s =
        Some (map_sum id Result (fst (fn_apply (c_function w) (c_args w @ a1) (dict_update kw k1) s)),
              st1, snd (fn_apply (c_function w) (c_args w @ a1) (dict_update kw k1) s))" and
    f1: "\<forall>x. x < next_addr st \<longrightarrow> wrappers st1 x = wrappers st x \<and> dicts st1 x = dicts st x" and
    n1: "next_addr st \<le> next_addr st1"
    by blast
  from f1 w kw alloc have w1: "wrappers st1 self = Some w" and kw1: "dicts st1 (c_kwargs w) = Some kw"
    by simp_all
  from obj_call_evaluates [OF w1 kw1 y2, of s']
  obtain st2 where
    c2: "obj_call self a2 k2 st1 s' =
        Some (map_sum id Result (fst (fn_apply (c_function w) (c_args w @ a2) (dict_update kw k2) s')),
              st2, snd (fn_apply (c_function w) (c_args w @ a2) (dict_update kw k2) s'))" and
    f2: "\<forall>x. x < next_addr st1 \<longrightarrow> wrappers st2 x = wrappers st1 x \<and> dicts st2 x = dicts st1 x"
    by blast
  have self2: "wrappers st2 self = Some w" "dicts st2 (c_kwargs w) = Some kw"
    using f2 w1 kw1 alloc n1 by simp_all
  from c1 c2 self2 show "\<exists>st1 st2.
           obj_call self a1 k1 st s =
             Some (map_sum id Result
                     (fst (fn_apply (c_function w) (c_args w @ a1) (dict_update kw k1) s)),
                   st1,
                   snd (fn_apply (c_function w) (c_args w @ a1) (dict_update kw k1) s)) \<and>
           obj_call self a2 k2 st1 s' =
             Some (map_sum id Result
                     (fst (fn_apply (c_function w) (c_args w @ a2) (dict_update kw k2) s')),
                   st2,
                   snd (fn_apply (c_function w) (c_args w @ a2) (dict_update kw k2) s')) \<and>
           wrappers st2 self = Some w \<and> dicts st2 (c_kwargs w) = Some kw"
    by blast
qed

theorem partial_call_leaves_wrapper_unchanged_witness:
  "\<exists>st0 p1 st1 p2 st2 st3 st4.
     obj_init (greater_than :: (int, nat, unit, bool) callable) None [] None empty_store =
       (Inr 1, st0) \<and>
     obj_call 1 [40] Map.empty st0 0 = Some (Inr (Partial p1), st1, 0) \<and>
     obj_call 1 [41] Map.empty st1 0 = Some (Inr (Partial p2), st2, 0) \<and>
     p1 \<noteq> p2 \<and>
     map_option c_args (wrappers st2 p1) = Some [40] \<and>
     map_option c_args (wrappers st2 p2) = Some [41] \<and>
     map_option c_args (wrappers st2 1) = Some [] \<and>
     obj_call 1 [40, 39] Map.empty st0 0 = Some (Inr (Result True), st3, 1) \<and>
     obj_call 1 [40, 50] Map.empty st3 1 = Some (Inr (Result False), st4, 2)"
proof -
  let ?f = "greater_than :: (int, nat, unit, bool) callable"
  let ?info = "\<lparr> spec_args = [''x'', ''y''], spec_varargs = None, spec_keywords = None,
                  spec_defaults = None \<rparr> :: int argspec"
  define w0 :: "(int, nat, unit, bool) curry_object" where
    "w0 = \<lparr> c_function = ?f, c_evaluation_checker = evaluation_checker ?info [''x'', ''y''],
            c_args = [], c_kwargs = 0, c_name = ''greater_than'', c_doc = None \<rparr>"
  define st0 :: "(int, nat, unit, bool) store" where
    "st0 = \<lparr> wrappers = [1 \<mapsto> w0], dicts = [0 \<mapsto> Map.empty],
             attributes = (\<lambda>obj. Map.empty), next_addr = 2 \<rparr>"
  have i: "obj_init ?f None [] None empty_store = (Inr 1, st0)"
    by (simp add: obj_init_def checker_or_def arity_evaluation_checker_def function_args_def
          kwargs_or_new_def new_dict_def new_wrapper_def empty_store_def greater_than_def
          w0_def st0_def)
  have h: "wrappers st0 1 = Some w0" "dicts st0 (c_kwargs w0) = Some Map.empty"
    "1 < next_addr st0" "c_kwargs w0 < next_addr st0"
    by (simp_all add: st0_def w0_def)
  have sel: "c_args w0 = []" "c_function w0 = ?f"
    "c_evaluation_checker w0 = evaluation_checker ?info [''x'', ''y'']"
    by (simp_all add: w0_def)
  have no: "\<not> c_evaluation_checker w0 (c_args w0 @ [40]) (dict_update Map.empty Map.empty)"
    "\<not> c_evaluation_checker w0 (c_args w0 @ [41]) (dict_update Map.empty Map.empty)"
    by (simp_all add: sel evaluation_checker_eq)
  have yes: "c_evaluation_checker w0 (c_args w0 @ [40, 39]) (dict_update Map.empty Map.empty)"
    "c_evaluation_checker w0 (c_args w0 @ [40, 50]) (dict_update Map.empty Map.empty)"
    by (simp_all add: sel evaluation_checker_eq)
  have ap: "fn_apply ?f [40, 39] Map.empty n = (Inr True, Suc n)"
    "fn_apply ?f [40, 50] Map.empty n = (Inr False, Suc n)" for n
    by (simp_all add: greater_than_def py_bind_def param_value_def upt_rec)
  from partial_call_leaves_wrapper_unchanged [OF h, of "[40]" Map.empty "[41]" Map.empty 0]
    no
  obtain p1 st1 pw1 p2 st2 pw2 where
    d: "obj_call 1 [40] Map.empty st0 0 = Some (Inr (Partial p1), st1, 0)"
       "obj_call 1 [41] Map.empty st1 0 = Some (Inr (Partial p2), st2, 0)"
       "p1 \<noteq> p2"
       "wrappers st2 p1 = Some pw1" "wrappers st2 p2 = Some pw2"
       "c_args pw1 = c_args w0 @ [40]" "c_args pw2 = c_args w0 @ [41]"
       "wrappers st2 1 = Some w0"
    by blast
  from partial_call_leaves_wrapper_unchanged [OF h, of "[40, 39]" Map.empty "[40, 50]" Map.empty 0 1]
    yes
  obtain st3 st4 where
    e: "obj_call 1 [40, 39] Map.empty st0 0 =
             Some (map_sum id Result
                     (fst (fn_apply (c_function w0) (c_args w0 @ [40, 39]) (dict_update Map.empty Map.empty) 0)),
                   st3,
                   snd (fn_apply (c_function w0) (c_args w0 @ [40, 39]) (dict_update Map.empty Map.empty) 0))"
       "obj_call 1 [40, 50] Map.empty st3 1 =
             Some (map_sum id Result
                     (fst (fn_apply (c_function w0) (c_args w0 @ [40, 50]) (dict_update Map.empty Map.empty) 1)),
                   st4,
                   snd (fn_apply (c_function w0) (c_args w0 @ [40, 50]) (dict_update Map.empty Map.empty) 1))"
    by blast
  from e have e': "obj_call 1 [40, 39] Map.empty st0 0 = Some (Inr (Result True), st3, 1)"
    "obj_call 1 [40, 50] Map.empty st3 1 = Some (Inr (Result False), st4, 2)"
    by (simp_all add: sel ap numeral_2_eq_2)
  from d have d': "map_option c_args (wrappers st2 p1) = Some [40]"
    "map_option c_args (wrappers st2 p2) = Some [41]"
    "map_option c_args (wrappers st2 1) = Some []"
    by (simp_all add: sel)
  from i d(1,2,3) d' e' show ?thesis by blast
qed

lemma obj_call_refines_call:
  assumes "value_at st self = Some v"
  shows "\<exists>r st'. obj_call self a k st s = Some (r, st', snd (call v a k s)) \<and>
     (case r of
        Inl e \<Rightarrow> fst (call v a k s) = Inl e
      | Inr (Result x) \<Rightarrow> fst (call v a k s) = Inr (Result x)
      | Inr (Partial p) \<Rightarrow>
          (\<exists>v'. value_at st' p = Some v' \<and> fst (call v a k s) = Inr (Partial v')))"
proof -
  from assms obtain w kw where
    w: "wrappers st self = Some w" and kw: "dicts st (c_kwargs w) = Some kw" and
    v: "v = \<lparr> c_function = c_function w, c_evaluation_checker = c_evaluation_checker w,
             c_args = c_args w, c_kwargs = kw, c_name = c_name w, c_doc = c_doc w \<rparr>"
    by (auto simp: value_at_def split: option.splits)
  show ?thesis
  proof (cases "c_evaluation_checker w (c_args w @ a) (dict_update kw k)")
    case True
    from obj_call_evaluates [OF w kw True, of s]
    obtain st' where
      c: "obj_call self a k st s =
        Some (map_sum id Result (fst (fn_apply (c_function w) (c_args w @ a) (dict_update kw k) s)),
              st', snd (fn_apply (c_function w) (c_args w @ a) (dict_update kw k) s))"
      by blast
    from True have cv: "call v a k s =
        (map_sum id Result (fst (fn_apply (c_function w) (c_args w @ a) (dict_update kw k) s)),
         snd (fn_apply (c_function w) (c_args w @ a) (dict_update kw k) s))"
      by (simp add: call_eq v)
    show ?thesis
      unfolding c cv
      by (cases "fst (fn_apply (c_function w) (c_args w @ a) (dict_update kw k) s)") simp_all
  next
    case False
    from obj_call_deferred [OF w kw False, of s]
    obtain p st' pw where
      c: "obj_call self a k st s = Some (Inr (Partial p), st', s)" and
      p: "wrappers st' p = Some pw"
         "c_function pw = c_function w" "c_evaluation_checker pw = c_evaluation_checker w"
         "c_args pw = c_args w @ a"
         "c_name pw = fn_name (c_function w)" "c_doc pw = fn_doc (c_function w)"
         "dicts st' (c_kwargs pw) = Some (dict_update kw k)"
      by blast
    from False have cv: "call v a k s =
        (Inr (Partial (rebuilt v (c_args w @ a) (dict_update kw k))), s)"
      by (simp add: call_eq v)
    from p have "value_at st' p = Some (rebuilt v (c_args w @ a) (dict_update kw k))"
      by (simp add: value_at_def rebuilt_def v)
    then show ?thesis
      unfolding c cv by simp
  qed
qed

subsection \<open>Wrapper objects: attribute access\<close>

lemma store_with_py_def:
  "store_with (py_def name doc names [] body) args =
     \<lparr> wrappers = [1 \<mapsto>
          \<lparr> c_function = py_def name doc names [] body,
            c_evaluation_checker =
              evaluation_checker
                \<lparr> spec_args = names, spec_varargs = None, spec_keywords = None,
                  spec_defaults = None \<rparr> names,
            c_args = args, c_kwargs = 0, c_name = name, c_doc = doc \<rparr>],
       dicts = [0 \<mapsto> Map.empty], attributes = (\<lambda>obj. Map.empty), next_addr = 2 \<rparr>"
  by (simp add: store_with_def obj_init_def checker_or_def arity_evaluation_checker_def
        function_args_def kwargs_or_new_def new_dict_def new_wrapper_def empty_store_def)

text \<open>
  \<^verbatim>\<open>__get__\<close> when \<^verbatim>\<open>__doc__\<close> of the wrapped callable is a string. An access
  through the class returns the wrapper object itself and changes nothing. An
  access through an instance returns a new wrapper object whose positional
  arguments are the accumulated ones followed by the instance, and a call of it
  that the checker accepts evaluates the callable on these followed by the
  arguments of the call.
\<close>

lemma obj_get_documented_binds:
  assumes w: "wrappers st self = Some w" and kw: "dicts st (c_kwargs w) = Some kw"
    and doc: "fn_doc (c_function w) = Some d"
  shows "obj_get self None st = Some (Inr self, st) \<and>
     (\<exists>b st' bw.
        obj_get self (Some instance) st = Some (Inr b, st') \<and>
        wrappers st' b = Some bw \<and>
        c_function bw = c_function w \<and> c_evaluation_checker bw = c_evaluation_checker w \<and>
        c_args bw = c_args w @ [instance] \<and> dicts st' (c_kwargs bw) = Some kw \<and>
        (c_evaluation_checker w (c_args w @ instance # args) (dict_update kw kwargs) \<longrightarrow>
           (\<exists>st''. obj_call b args kwargs st' s =
              Some (map_sum id Result
                      (fst (fn_apply (c_function w) (c_args w @ instance # args)
                              (dict_update kw kwargs) s)),
                    st'',
                    snd (fn_apply (c_function w) (c_args w @ instance # args)
                           (dict_update kw kwargs) s)))))"
proof
  show "obj_get self None st = Some (Inr self, st)"
    by (rule obj_get_class [OF w])
next
  from obj_get_instance [OF w doc, of "instance"]
  obtain b st' bw where
    g: "obj_get self (Some instance) st = Some (Inr b, st')" and
    b: "wrappers st' b = Some bw"
       "c_function bw = c_function w" "c_evaluation_checker bw = c_evaluation_checker w"
       "c_args bw = c_args w @ [instance]" and
    dk: "dicts st' (c_kwargs bw) =
           Some (case dicts st (c_kwargs w) of Some m \<Rightarrow> m | None \<Rightarrow> Map.empty)"
    by blast
  from dk kw have dk': "dicts st' (c_kwargs bw) = Some kw" by simp
  have ev: "\<exists>st''. obj_call b args kwargs st' s =
              Some (map_sum id Result
                      (fst (fn_apply (c_function w) (c_args w @ instance # args)
                              (dict_update kw kwargs) s)),
                    st'',
                    snd (fn_apply (c_function w) (c_args w @ instance # args)
                           (dict_update kw kwargs) s))"
    if c: "c_evaluation_checker w (c_args w @ instance # args) (dict_update kw kwargs)"
  proof -
    from c b have c': "c_evaluation_checker bw (c_args bw @ args) (dict_update kw kwargs)"
      by simp
    from obj_call_evaluates [OF b(1) dk' c', of s] b show ?thesis
      by auto
  qed
  from g b dk' ev show "\<exists>b st' bw.
        obj_get self (Some instance) st = Some (Inr b, st') \<and>
        wrappers st' b = Some bw \<and>
        c_function bw = c_function w \<and> c_evaluation_checker bw = c_evaluation_checker w \<and>
        c_args bw = c_args w @ [instance] \<and> dicts st' (c_kwargs bw) = Some kw \<and>
        (c_evaluation_checker w (c_args w @ instance # args) (dict_update kw kwargs) \<longrightarrow>
           (\<exists>st''. obj_call b args kwargs st' s =
              Some (map_sum id Result
                      (fst (fn_apply (c_function w) (c_args w @ instance # args)
                              (dict_update kw kwargs) s)),
                    st'',
                    snd (fn_apply (c_function w) (c_args w @ instance # args)
                           (dict_update kw kwargs) s))))"
    by blast
qed

text \<open>
  In the same case both \<^verbatim>\<open>setattr\<close> calls assign the new wrapper object, no other
  attribute changes, and what was allocated before is as it was.
\<close>

lemma obj_get_documented_assigns:
  assumes w: "wrappers st self = Some w" and doc: "fn_doc (c_function w) = Some d"
    and alloc: "self < next_addr st" "c_kwargs w < next_addr st"
  shows "\<exists>b st' bw.
     obj_get self (Some instance) st = Some (Inr b, st') \<and>
     next_addr st \<le> b \<and> b \<noteq> self \<and> wrappers st' b = Some bw \<and>
     c_args bw = c_args w @ [instance] \<and>
     attributes st' instance (fn_name (c_function w)) = Some b \<and>
     attributes st' instance d = Some b \<and>
     (\<forall>obj name. \<not> (obj = instance \<and> (name = fn_name (c_function w) \<or> name = d)) \<longrightarrow>
        attributes st' obj name = attributes st obj name) \<and>
     wrappers st' self = Some w \<and> dicts st' (c_kwargs w) = dicts st (c_kwargs w) \<and>
     (\<forall>x. x < next_addr st \<longrightarrow> wrappers st' x = wrappers st x \<and> dicts st' x = dicts st x)"
proof -
  from obj_get_instance [OF w doc, of "instance"]
  obtain b st' bw where
    g: "obj_get self (Some instance) st = Some (Inr b, st')" and
    b: "next_addr st \<le> b" "wrappers st' b = Some bw" "c_args bw = c_args w @ [instance]" and
    fr: "\<forall>x. x < next_addr st \<longrightarrow> wrappers st' x = wrappers st x \<and> dicts st' x = dicts st x" and
    at: "attributes st' =
        (attributes st)(instance :=
           (attributes st instance)(fn_name (c_function w) \<mapsto> b, d \<mapsto> b))"
    by blast
  from b alloc have ne: "b \<noteq> self" by simp
  from fr w alloc have keep: "wrappers st' self = Some w"
    "dicts st' (c_kwargs w) = dicts st (c_kwargs w)"
    by simp_all
  have a1: "attributes st' instance (fn_name (c_function w)) = Some b"
    and a2: "attributes st' instance d = Some b"
    by (simp_all add: at)
  have a3: "\<forall>obj name. \<not> (obj = instance \<and> (name = fn_name (c_function w) \<or> name = d)) \<longrightarrow>
        attributes st' obj name = attributes st obj name"
    by (auto simp: at)
  from g b ne a1 a2 a3 keep fr show ?thesis by blast
qed

lemma obj_get_without_docstring:
  assumes "wrappers st self = Some w" and "fn_doc (c_function w) = None"
  shows "\<exists>b st' bw.
      obj_get self (Some instance) st = Some (Inl (TypeError AttributeNameNotString), st') \<and>
      next_addr st \<le> b \<and> wrappers st' b = Some bw \<and>
      c_args bw = c_args w @ [instance] \<and>
      (\<forall>x. x < next_addr st \<longrightarrow> wrappers st' x = wrappers st x \<and> dicts st' x = dicts st x) \<and>
      attributes st' =
        (attributes st)(instance := (attributes st instance)(fn_name (c_function w) \<mapsto> b))"
proof -
  from obj_init_given [of "c_function w" "c_evaluation_checker w" "c_args w @ [instance]"
      "c_kwargs w" st]
  obtain b st1 bw where
    i: "obj_init (c_function w) (Some (c_evaluation_checker w)) (c_args w @ [instance])
          (Some (c_kwargs w)) st = (Inr b, st1)" and
    b: "next_addr st \<le> b" "wrappers st1 b = Some bw" "c_args bw = c_args w @ [instance]" and
    fr: "\<forall>x. x < next_addr st \<longrightarrow> wrappers st1 x = wrappers st x \<and> dicts st1 x = dicts st x" and
    at: "attributes st1 = attributes st"
    by blast
  let ?st' = "st1\<lparr> attributes :=
      (attributes st)(instance := (attributes st instance)(fn_name (c_function w) \<mapsto> b)) \<rparr>"
  have g: "obj_get self (Some instance) st =
      Some (Inl (TypeError AttributeNameNotString), ?st')"
    using assms i at by (simp add: obj_get_def py_setattr_def)
  from g b fr show ?thesis
    by (intro exI [of _ b] exI [of _ ?st'] exI [of _ bw]) auto
qed

text \<open>
  Claim C7, at a wrapped callable without a docstring, such as
  \<^verbatim>\<open>def greet(self, greeting): ...\<close>. \<^verbatim>\<open>__doc__\<close> is \<^verbatim>\<open>None\<close>, which line 123
  passes to \<^verbatim>\<open>setattr\<close> as the attribute name. For every such wrapper object an
  access through an instance raises \<^verbatim>\<open>TypeError\<close>: \<^verbatim>\<open>__get__\<close> returns no
  wrapper, so \<^verbatim>\<open>instance.greet("hi")\<close> fails before \<^verbatim>\<open>greet\<close> is reached.
\<close>

theorem get_without_docstring_raises:
  assumes "wrappers st self = Some w" and "fn_doc (c_function w) = None"
  shows "(\<exists>st'. obj_get self (Some instance) st =
            Some (Inl (TypeError AttributeNameNotString), st')) \<and>
     raised_by_get self (Some instance) st = Some (TypeError AttributeNameNotString) \<and>
     bound_args_after_get self (Some instance) st = None"
proof -
  from obj_get_without_docstring [OF assms, of "instance"]
  obtain st' where
    g: "obj_get self (Some instance) st = Some (Inl (TypeError AttributeNameNotString), st')"
    by blast
  then show ?thesis
    by (simp add: raised_by_get_def bound_args_after_get_def)
qed

theorem get_without_docstring_raises_witness:
  "raised_by_get 1 (Some ''instance'')
     (store_with (greet :: (string, unit, unit, string \<rightharpoonup> string) callable) []) =
     Some (TypeError AttributeNameNotString) \<and>
   bound_args_after_get 1 (Some ''instance'')
     (store_with (greet :: (string, unit, unit, string \<rightharpoonup> string) callable) []) = None"
proof -
  let ?f = "greet :: (string, unit, unit, string \<rightharpoonup> string) callable"
  let ?info = "\<lparr> spec_args = [''self'', ''greeting''], spec_varargs = None,
                  spec_keywords = None, spec_defaults = None \<rparr> :: string argspec"
  define w :: "(string, unit, unit, string \<rightharpoonup> string) curry_object" where
    "w = \<lparr> c_function = ?f, c_evaluation_checker = evaluation_checker ?info [''self'', ''greeting''],
           c_args = [], c_kwargs = 0, c_name = ''greet'', c_doc = None \<rparr>"
  have h: "wrappers (store_with ?f []) 1 = Some w" "fn_doc (c_function w) = None"
    by (simp_all add: greet_def store_with_py_def w_def)
  from get_without_docstring_raises [OF h, of "''instance''"] show ?thesis
    by blast
qed

text \<open>
  Claim C10, at the same wrapped callables. The access builds the bound wrapper
  and assigns it to the attribute of the instance named by the function's name.
  The assignment to an attribute named by the docstring is not made: the name is
  \<^verbatim>\<open>None\<close> and the access ends with \<^verbatim>\<open>TypeError\<close>. No other attribute changes and
  the wrapper object that was accessed is as it was.
\<close>

theorem get_without_docstring_assigns_once:
  assumes w: "wrappers st self = Some w" and doc: "fn_doc (c_function w) = None"
    and alloc: "self < next_addr st" "c_kwargs w < next_addr st"
  shows "\<exists>b st' bw.
     obj_get self (Some instance) st = Some (Inl (TypeError AttributeNameNotString), st') \<and>
     next_addr st \<le> b \<and> b \<noteq> self \<and> wrappers st' b = Some bw \<and>
     c_args bw = c_args w @ [instance] \<and>
     attributes st' instance (fn_name (c_function w)) = Some b \<and>
     (\<forall>obj name. \<not> (obj = instance \<and> name = fn_name (c_function w)) \<longrightarrow>
        attributes st' obj name = attributes st obj name) \<and>
     wrappers st' self = Some w \<and> dicts st' (c_kwargs w) = dicts st (c_kwargs w)"
proof -
  from obj_get_without_docstring [OF w doc, of "instance"]
  obtain b st' bw where
    g: "obj_get self (Some instance) st = Some (Inl (TypeError AttributeNameNotString), st')" and
    b: "next_addr st \<le> b" "wrappers st' b = Some bw" "c_args bw = c_args w @ [instance]" and
    fr: "\<forall>x. x < next_addr st \<longrightarrow> wrappers st' x = wrappers st x \<and> dicts st' x = dicts st x" and
    at: "attributes st' =
        (attributes st)(instance := (attributes st instance)(fn_name (c_function w) \<mapsto> b))"
    by blast
  from b alloc have ne: "b \<noteq> self" by simp
  from fr w alloc have keep: "wrappers st' self = Some w"
    "dicts st' (c_kwargs w) = dicts st (c_kwargs w)"
    by simp_all
  have a1: "attributes st' instance (fn_name (c_function w)) = Some b"
    by (simp add: at)
  have a3: "\<forall>obj name. \<not> (obj = instance \<and> name = fn_name (c_function w)) \<longrightarrow>
        attributes st' obj name = attributes st obj name"
    by (auto simp: at)
  from g b ne a1 a3 keep show ?thesis by blast
qed

theorem get_without_docstring_assigns_once_witness:
  "\<exists>b st'.
     obj_get 1 (Some ''instance'')
       (store_with (greet :: (string, unit, unit, string \<rightharpoonup> string) callable) []) =
       Some (Inl (TypeError AttributeNameNotString), st') \<and>
     attributes st' ''instance'' ''greet'' = Some b \<and>
     attributes st' ''instance'' ''other'' = None \<and>
     wrappers st' 1 =
       wrappers (store_with (greet :: (string, unit, unit, string \<rightharpoonup> string) callable) []) 1"
proof -
  let ?f = "greet :: (string, unit, unit, string \<rightharpoonup> string) callable"
  let ?info = "\<lparr> spec_args = [''self'', ''greeting''], spec_varargs = None,
                  spec_keywords = None, spec_defaults = None \<rparr> :: string argspec"
  define w :: "(string, unit, unit, string \<rightharpoonup> string) curry_object" where
    "w = \<lparr> c_function = ?f, c_evaluation_checker = evaluation_checker ?info [''self'', ''greeting''],
           c_args = [], c_kwargs = 0, c_name = ''greet'', c_doc = None \<rparr>"
  let ?st = "store_with ?f []"
  have h: "wrappers ?st 1 = Some w" "fn_doc (c_function w) = None"
    "1 < next_addr ?st" "c_kwargs w < next_addr ?st"
    by (simp_all add: greet_def store_with_py_def w_def)
  have nm: "fn_name (c_function w) = ''greet''"
    by (simp add: w_def greet_def)
  have at0: "attributes ?st ''instance'' ''other'' = None"
    by (simp add: greet_def store_with_py_def)
  from get_without_docstring_assigns_once [OF h, of "''instance''"]
  obtain b st' where
    g: "obj_get 1 (Some ''instance'') ?st =
          Some (Inl (TypeError AttributeNameNotString), st')"
       "attributes st' ''instance'' (fn_name (c_function w)) = Some b"
       "\<forall>obj name. \<not> (obj = ''instance'' \<and> name = fn_name (c_function w)) \<longrightarrow>
          attributes st' obj name = attributes ?st obj name"
       "wrappers st' 1 = Some w"
    by blast
  from g(3) have "attributes st' ''instance'' ''other'' = attributes ?st ''instance'' ''other''"
    by (simp add: nm)
  with at0 have o: "attributes st' ''instance'' ''other'' = None" by simp
  from g(1,2,4) o h(1) show ?thesis
    by (simp add: nm)
qed

text \<open>
  With a docstring and with \<^verbatim>\<open>"hello"\<close> accumulated before, the instance comes
  after \<^verbatim>\<open>"hello"\<close>: line 120 is \<^verbatim>\<open>self.args + (obj,)\<close>.
\<close>

lemma obj_get_appends_instance:
  "bound_args_after_get 1 (Some ''instance'')
     (store_with (greet_documented :: (string, unit, unit, string \<rightharpoonup> string) callable)
        [''hello'']) =
     Some [''hello'', ''instance'']"
  by (simp add: bound_args_after_get_def greet_documented_def store_with_py_def obj_get_def
        obj_init_def checker_or_def kwargs_or_new_def new_dict_def new_wrapper_def
        py_setattr_def)

end
